theory Spec2Isabelle
  imports Main "HOL-Library.Word"
begin

section \<open>Go values used by the metrics pipeline\<close>

text \<open>
  A \<open>float64\<close> is kept as its IEEE-754 bit pattern: the pipeline only stores and copies
  floating point values, it never computes with them. The zero value \<open>0.0\<close> is the
  all-zero pattern. A \<open>uint64\<close> is a 64-bit word, so \<open>+=\<close> wraps as in Go.
\<close>

datatype float64 = Float64 (bits: "64 word")

type_synonym uint64 = "64 word"

text \<open>
  A slice is \<open>None\<close> when it is \<open>nil\<close> (the zero value) and \<open>Some xs\<close> otherwise.
  Nothing in the pipeline writes through a slice, so the backing array is not modelled.
\<close>

type_synonym 'a slice = "'a list option"

text \<open>
  \<open>time.Time\<close> as nanoseconds since January 1, year 1, 00:00:00 UTC; the zero value of
  the type is that instant. \<open>time.Duration\<close> is a count of nanoseconds.
\<close>

type_synonym Time = int

type_synonym Duration = int

definition IsZero :: "Time \<Rightarrow> bool" where
  "IsZero t = (t = 0)"

definition Millisecond :: Duration where
  "Millisecond = 1000000"

definition Second :: Duration where
  "Second = 1000000000"

text \<open>A Go \<open>error\<close> value is represented by its message.\<close>

type_synonym error = string

text \<open>Run-time panics the pipeline can raise.\<close>

datatype panic =
    MakechanSizeOutOfRange
  | NonPositiveTickerInterval
  | IndexOutOfRange

section \<open>The data model (package collect)\<close>

record CPUMetric =
  OverallPercent :: float64
  PerCorePercent :: "float64 slice"
  LoadAverage :: "float64 slice"

record MemoryMetric =
  mem_TotalBytes :: uint64
  mem_AvailableBytes :: uint64
  mem_UsedBytes :: uint64
  mem_UsedPercent :: float64
  SwapTotalBytes :: uint64
  SwapUsedBytes :: uint64
  SwapUsedPercent :: float64

record DiskMetric =
  disk_TotalBytes :: uint64
  disk_FreeBytes :: uint64
  disk_UsedBytes :: uint64
  disk_UsedPercent :: float64
  ReadBytes :: uint64
  WriteBytes :: uint64
  ReadOps :: uint64
  WriteOps :: uint64

record NetworkMetric =
  BytesSent :: uint64
  BytesRecv :: uint64
  PacketsSent :: uint64
  PacketsRecv :: uint64
  ErrorsIn :: uint64
  ErrorsOut :: uint64
  DropsIn :: uint64
  DropsOut :: uint64

text \<open>The zero values of the four payload structs.\<close>

definition CPUMetric_zero :: CPUMetric where
  "CPUMetric_zero =
     \<lparr>OverallPercent = Float64 0, PerCorePercent = None, LoadAverage = None\<rparr>"

definition MemoryMetric_zero :: MemoryMetric where
  "MemoryMetric_zero =
     \<lparr>mem_TotalBytes = 0, mem_AvailableBytes = 0, mem_UsedBytes = 0,
      mem_UsedPercent = Float64 0, SwapTotalBytes = 0, SwapUsedBytes = 0,
      SwapUsedPercent = Float64 0\<rparr>"

definition DiskMetric_zero :: DiskMetric where
  "DiskMetric_zero =
     \<lparr>disk_TotalBytes = 0, disk_FreeBytes = 0, disk_UsedBytes = 0,
      disk_UsedPercent = Float64 0, ReadBytes = 0, WriteBytes = 0, ReadOps = 0,
      WriteOps = 0\<rparr>"

definition NetworkMetric_zero :: NetworkMetric where
  "NetworkMetric_zero =
     \<lparr>BytesSent = 0, BytesRecv = 0, PacketsSent = 0, PacketsRecv = 0, ErrorsIn = 0,
      ErrorsOut = 0, DropsIn = 0, DropsOut = 0\<rparr>"

text \<open>
  The \<open>Data\<close> field of a \<open>Metric\<close> has type \<open>any\<close>: a value together with its dynamic type.
  The four payload structs are the dynamic types the aggregator asserts on; \<open>Nil_any\<close> is the
  nil interface and \<open>Other_any\<close> stands for a value of any other dynamic type (a pointer to a
  payload struct, a string, ...), tagged with the name of that type.
\<close>

datatype any =
    Nil_any
  | CPU_any CPUMetric
  | Memory_any MemoryMetric
  | Disk_any DiskMetric
  | Network_any NetworkMetric
  | Other_any string

record Metric =
  Type :: string
  metric_Timestamp :: Time
  Data :: any

record Sample =
  Timestamp :: Time
  CPU :: CPUMetric
  Memory :: MemoryMetric
  Disk :: DiskMetric
  Network :: NetworkMetric

text \<open>The zero value of \<open>Sample\<close>: what a freshly allocated aggregator holds.\<close>

definition Sample_zero :: Sample where
  "Sample_zero =
     \<lparr>Timestamp = 0, CPU = CPUMetric_zero, Memory = MemoryMetric_zero,
      Disk = DiskMetric_zero, Network = NetworkMetric_zero\<rparr>"

definition IsComplete :: "Sample \<Rightarrow> bool" where
  "IsComplete s = (\<not> IsZero (Timestamp s))"

section \<open>Channels and select\<close>

text \<open>
  A channel as the run-time keeps it: \<open>buf\<close> is the queue of elements sent and not yet
  received, oldest first, \<open>dataqsiz\<close> its capacity (0 for an unbuffered channel), and
  \<open>recvq\<close> says that the receiver is parked on the channel, waiting. A send that finds the
  receiver parked passes the element straight to it, whatever the capacity: \<open>handed\<close> is that
  element until the woken receiver has taken it up. No sender ever parks, since every send of
  the pipeline stands in a \<open>select\<close> with a \<open>default\<close>.
\<close>

record 'a chan =
  buf :: "'a list"
  dataqsiz :: nat
  recvq :: bool
  handed :: "'a option"

text \<open>
  \<open>make(chan T, n)\<close> panics when \<open>n\<close> is negative or the buffer of \<open>n\<close> elements exceeds what
  the allocator can address. The bounds are those of the 64-bit Linux target the repository
  is built for; \<open>elemsize\<close> is the size of \<open>T\<close> in bytes. Whether the machine has the memory
  for an admissible buffer is not modelled.
\<close>

definition maxAlloc :: int where
  "maxAlloc = 2 ^ 48"

definition hchanSize :: int where
  "hchanSize = 104"

definition make_chan :: "int \<Rightarrow> int \<Rightarrow> panic + 'a chan" where
  "make_chan elemsize n =
     (if n < 0 \<or> maxAlloc - hchanSize < elemsize * n then Inl MakechanSizeOutOfRange
      else Inr \<lparr>buf = [], dataqsiz = nat n, recvq = False, handed = None\<rparr>)"

text \<open>A channel with the given elements queued and no receiver waiting.\<close>

definition queue :: "'a list \<Rightarrow> nat \<Rightarrow> 'a chan" where
  "queue xs n = \<lparr>buf = xs, dataqsiz = n, recvq = False, handed = None\<rparr>"

text \<open>
  A send can proceed when the receiver is parked or the queue has room. It then goes to the
  parked receiver, or else to the end of the queue.
\<close>

definition can_send :: "'a chan \<Rightarrow> bool" where
  "can_send ch = (recvq ch \<or> length (buf ch) < dataqsiz ch)"

definition enqueue :: "'a \<Rightarrow> 'a chan \<Rightarrow> 'a chan" where
  "enqueue x ch =
     (if recvq ch then ch\<lparr>recvq := False, handed := Some x\<rparr>
      else ch\<lparr>buf := buf ch @ [x]\<rparr>)"

text \<open>A receive can proceed when the queue is not empty; it takes the oldest element.\<close>

definition recv :: "'a chan \<Rightarrow> ('a \<times> 'a chan) option" where
  "recv ch = (case buf ch of [] \<Rightarrow> None | x # xs \<Rightarrow> Some (x, ch\<lparr>buf := xs\<rparr>))"

text \<open>
  A \<open>select\<close> statement: of the cases whose communication can proceed (listed in source
  order) one is chosen, \<open>pick\<close> being the run-time's choice among them. With no case ready
  a \<open>select\<close> without \<open>default\<close> blocks (\<open>None\<close>), and one with \<open>default\<close> takes it.
\<close>

fun select_blocking :: "nat \<Rightarrow> 'c list \<Rightarrow> 'c option" where
  "select_blocking pick [] = None"
| "select_blocking pick (c # cs) = Some ((c # cs) ! (pick mod length (c # cs)))"

definition select_default :: "nat \<Rightarrow> 'c list \<Rightarrow> 'c \<Rightarrow> 'c" where
  "select_default pick ready d =
     (case select_blocking pick ready of None \<Rightarrow> d | Some c \<Rightarrow> c)"

text \<open>
  The non-blocking hand-off every collector uses,
  \<^verbatim>\<open>select { case out <- metric: default: }\<close>:
  the result says whether the metric was sent.
\<close>

datatype send_case = SendCase | CtxDoneCase | DefaultCase

definition try_send :: "'a \<Rightarrow> 'a chan \<Rightarrow> bool \<times> 'a chan" where
  "try_send x ch =
     (case select_default 0 (if can_send ch then [SendCase] else []) DefaultCase of
        SendCase \<Rightarrow> (True, enqueue x ch)
      | _ \<Rightarrow> (False, ch))"

text \<open>What one iteration of a \<open>for { select { ... } }\<close> loop sees when it reaches the
  \<open>select\<close>: whether the context is cancelled, whether a tick is pending on the ticker
  (with what the body would read from its environment if it ran now), the run-time's
  choice among ready cases, and for the hand-off inside the body the state of the context
  at that point and the choice made there.\<close>

record 'p obs =
  ctx_done :: bool
  tick :: "'p option"
  pick :: nat
  send_ctx_done :: bool
  send_pick :: nat

datatype 'a run = Running 'a | Returned 'a | Panicked panic

text \<open>
  A loop after a finite prefix of its observations is still running, has returned, or has
  panicked; \<open>state_of\<close> is the state it is in, or was in when it returned.
\<close>

fun state_of :: "'a run \<Rightarrow> 'a option" where
  "state_of (Running a) = Some a"
| "state_of (Returned a) = Some a"
| "state_of (Panicked p) = None"

text \<open>An arrival at the \<open>select\<close> during which the context does not change.\<close>

definition at_select :: "bool \<Rightarrow> 'p option \<Rightarrow> nat \<Rightarrow> 'p obs" where
  "at_select d t p = \<lparr>ctx_done = d, tick = t, pick = p, send_ctx_done = d, send_pick = 0\<rparr>"

section \<open>Log lines\<close>

datatype logline =
    CollectorStarted string
  | CollectorStopping string
  | ErrorCollecting string error
  | WarningLoadAverage error
  | NoNetworkInterfaces
  | MetricDropped string
  | AggregatorStarted Duration
  | AggregatorStopping
  | UnknownMetricType string
  | SampleCreated Time

section \<open>The aggregator (package agg)\<close>

text \<open>
  The struct \<open>Aggregator\<close>. The four \<open>current\<close> fields are pointers, \<open>None\<close> being \<open>nil\<close>.
  \<open>promMetrics\<close> is represented by the samples handed to \<open>UpdateFromSample\<close>, oldest first;
  \<open>agg_log\<close> collects what the aggregator prints. The mutex guards \<open>latestSample\<close> against
  concurrent readers and has no sequential content.
\<close>

record Aggregator =
  metricsChan :: "Metric chan"
  latestSample :: Sample
  currentCPU :: "CPUMetric option"
  currentMemory :: "MemoryMetric option"
  currentDisk :: "DiskMetric option"
  currentNetwork :: "NetworkMetric option"
  promMetrics :: "Sample list"
  sampleInterval :: Duration
  agg_log :: "logline list"

text \<open>
  The size of a \<open>Metric\<close> in bytes on a 64-bit target: a string header, a \<open>time.Time\<close> and an
  interface value.
\<close>

definition Metric_size :: int where
  "Metric_size = 56"

definition NewAggregator :: "Duration \<Rightarrow> int \<Rightarrow> panic + Aggregator" where
  "NewAggregator interval bufferSize =
     (case make_chan Metric_size bufferSize of
        Inl p \<Rightarrow> Inl p
      | Inr ch \<Rightarrow>
          Inr \<lparr>metricsChan = ch, latestSample = Sample_zero, currentCPU = None,
               currentMemory = None, currentDisk = None, currentNetwork = None,
               promMetrics = [], sampleInterval = interval, agg_log = []\<rparr>)"


definition GetLatestSample :: "Aggregator \<Rightarrow> Sample" where
  "GetLatestSample a = latestSample a"

definition storeMetric :: "Metric \<Rightarrow> Aggregator \<Rightarrow> Aggregator" where
  "storeMetric metric a =
     (if Type metric = ''cpu'' then
        (case Data metric of CPU_any cpuData \<Rightarrow> a\<lparr>currentCPU := Some cpuData\<rparr> | _ \<Rightarrow> a)
      else if Type metric = ''memory'' then
        (case Data metric of Memory_any memData \<Rightarrow> a\<lparr>currentMemory := Some memData\<rparr> | _ \<Rightarrow> a)
      else if Type metric = ''disk'' then
        (case Data metric of Disk_any diskData \<Rightarrow> a\<lparr>currentDisk := Some diskData\<rparr> | _ \<Rightarrow> a)
      else if Type metric = ''network'' then
        (case Data metric of Network_any netData \<Rightarrow> a\<lparr>currentNetwork := Some netData\<rparr> | _ \<Rightarrow> a)
      else a\<lparr>agg_log := agg_log a @ [UnknownMetricType (Type metric)]\<rparr>)"

text \<open>\<open>createSample\<close>, with the value \<open>time.Now()\<close> returns as a parameter.\<close>

definition createSample :: "Time \<Rightarrow> Aggregator \<Rightarrow> Aggregator" where
  "createSample now a =
     (let sample =
            \<lparr>Timestamp = now,
             CPU = (case currentCPU a of Some c \<Rightarrow> c | None \<Rightarrow> CPUMetric_zero),
             Memory = (case currentMemory a of Some m \<Rightarrow> m | None \<Rightarrow> MemoryMetric_zero),
             Disk = (case currentDisk a of Some d \<Rightarrow> d | None \<Rightarrow> DiskMetric_zero),
             Network = (case currentNetwork a of Some n \<Rightarrow> n | None \<Rightarrow> NetworkMetric_zero)\<rparr>
      in a\<lparr>latestSample := sample,
           promMetrics := promMetrics a @ [sample],
           agg_log := agg_log a @ [SampleCreated (Timestamp sample)]\<rparr>)"

text \<open>
  The loop of \<open>Aggregator.Start\<close> over a finite prefix of what happens to it: a collector
  attempting a hand-off on the shared channel, or the loop reaching its \<open>select\<close> or being
  woken in it. The receive case is ready when the queue is not empty. A \<open>select\<close> with no
  case ready parks the loop on the channel until the next event. A hand-off that finds the
  loop parked wakes it in its receive case with the element handed over, and the loop stores
  it.
\<close>

datatype agg_case = AggDone | AggRecv Metric "Metric chan" | AggTick Time

datatype agg_event = Send Metric | Select "Time obs"

definition agg_ready :: "Time obs \<Rightarrow> Aggregator \<Rightarrow> agg_case list" where
  "agg_ready ob a =
     (if ctx_done ob then [AggDone] else []) @
     (case recv (metricsChan a) of None \<Rightarrow> [] | Some (m, ch) \<Rightarrow> [AggRecv m ch]) @
     (case tick ob of None \<Rightarrow> [] | Some now \<Rightarrow> [AggTick now])"

fun Aggregator_loop :: "agg_event list \<Rightarrow> Aggregator \<Rightarrow> Aggregator run" where
  "Aggregator_loop [] a = Running a"
| "Aggregator_loop (Send m # es) a =
     (case handed (snd (try_send m (metricsChan a))) of
        None \<Rightarrow> Aggregator_loop es (a\<lparr>metricsChan := snd (try_send m (metricsChan a))\<rparr>)
      | Some metric \<Rightarrow>
          Aggregator_loop es
            (storeMetric metric
               (a\<lparr>metricsChan := (snd (try_send m (metricsChan a)))\<lparr>handed := None\<rparr>\<rparr>)))"
| "Aggregator_loop (Select ob # es) a =
     (case select_blocking (pick ob) (agg_ready ob a) of
        None \<Rightarrow> Aggregator_loop es (a\<lparr>metricsChan := (metricsChan a)\<lparr>recvq := True\<rparr>\<rparr>)
      | Some AggDone \<Rightarrow>
          Returned (a\<lparr>metricsChan := (metricsChan a)\<lparr>recvq := False\<rparr>,
                     agg_log := agg_log a @ [AggregatorStopping]\<rparr>)
      | Some (AggRecv metric ch) \<Rightarrow>
          Aggregator_loop es (storeMetric metric (a\<lparr>metricsChan := ch\<lparr>recvq := False\<rparr>\<rparr>))
      | Some (AggTick now) \<Rightarrow>
          Aggregator_loop es
            (createSample now (a\<lparr>metricsChan := (metricsChan a)\<lparr>recvq := False\<rparr>\<rparr>)))"

text \<open>\<open>time.NewTicker\<close> panics on a non-positive interval.\<close>

definition Aggregator_Start :: "agg_event list \<Rightarrow> Aggregator \<Rightarrow> Aggregator run" where
  "Aggregator_Start es a =
     (if sampleInterval a \<le> 0 then Panicked NonPositiveTickerInterval
      else Aggregator_loop es
             (a\<lparr>agg_log := agg_log a @ [AggregatorStarted (sampleInterval a)]\<rparr>))"

text \<open>Delivering a sequence of metrics to \<open>storeMetric\<close>, first to last.\<close>

definition storeMetrics :: "Metric list \<Rightarrow> Aggregator \<Rightarrow> Aggregator" where
  "storeMetrics ms a = foldl (\<lambda>s m. storeMetric m s) a ms"

text \<open>The values \<open>time.Now()\<close> would return at the pending ticks of a run, in order.\<close>

fun clock_reads :: "agg_event list \<Rightarrow> Time list" where
  "clock_reads [] = []"
| "clock_reads (Send m # es) = clock_reads es"
| "clock_reads (Select ob # es) =
     (case tick ob of None \<Rightarrow> clock_reads es | Some now \<Rightarrow> now # clock_reads es)"

section \<open>Measurements\<close>

text \<open>
  A \<open>Metric\<close> is a Measurement of the data model when its tag names the struct type of its
  payload. The collectors build nothing else.
\<close>

definition Measurement :: "Metric \<Rightarrow> bool" where
  "Measurement m =
     (case Data m of
        CPU_any _ \<Rightarrow> Type m = ''cpu''
      | Memory_any _ \<Rightarrow> Type m = ''memory''
      | Disk_any _ \<Rightarrow> Type m = ''disk''
      | Network_any _ \<Rightarrow> Type m = ''network''
      | _ \<Rightarrow> False)"

definition recognized :: "string \<Rightarrow> bool" where
  "recognized k = (k = ''cpu'' \<or> k = ''memory'' \<or> k = ''disk'' \<or> k = ''network'')"

text \<open>The type assertions \<open>metric.Data.(T)\<close>.\<close>

definition as_CPU :: "any \<Rightarrow> CPUMetric option" where
  "as_CPU d = (case d of CPU_any c \<Rightarrow> Some c | _ \<Rightarrow> None)"

definition as_Memory :: "any \<Rightarrow> MemoryMetric option" where
  "as_Memory d = (case d of Memory_any c \<Rightarrow> Some c | _ \<Rightarrow> None)"

definition as_Disk :: "any \<Rightarrow> DiskMetric option" where
  "as_Disk d = (case d of Disk_any c \<Rightarrow> Some c | _ \<Rightarrow> None)"

definition as_Network :: "any \<Rightarrow> NetworkMetric option" where
  "as_Network d = (case d of Network_any c \<Rightarrow> Some c | _ \<Rightarrow> None)"

text \<open>The last metric of a sequence that carries the tag \<open>k\<close>, if there is one.\<close>

definition last_of_kind :: "string \<Rightarrow> Metric list \<Rightarrow> Metric option" where
  "last_of_kind k ms =
     (let xs = filter (\<lambda>m. Type m = k) ms in if xs = [] then None else Some (last xs))"

section \<open>Probe results (gopsutil)\<close>

text \<open>
  The probe library is outside the repository: a call yields an error or a value. Of the
  library's structs only the fields the collectors read are kept.
\<close>

record VirtualMemoryStat =
  vm_Total :: uint64
  vm_Available :: uint64
  vm_Used :: uint64
  vm_UsedPercent :: float64

record SwapMemoryStat =
  swap_Total :: uint64
  swap_Used :: uint64
  swap_UsedPercent :: float64

record UsageStat =
  usage_Total :: uint64
  usage_Free :: uint64
  usage_Used :: uint64
  usage_UsedPercent :: float64

record DiskIOCountersStat =
  io_ReadBytes :: uint64
  io_WriteBytes :: uint64
  io_ReadCount :: uint64
  io_WriteCount :: uint64

record NetIOCountersStat =
  io_BytesSent :: uint64
  io_BytesRecv :: uint64
  io_PacketsSent :: uint64
  io_PacketsRecv :: uint64
  Errin :: uint64
  Errout :: uint64
  Dropin :: uint64
  Dropout :: uint64

record AvgStat =
  Load1 :: float64
  Load5 :: float64
  Load15 :: float64

text \<open>
  What the probe calls of one collection cycle return, and what \<open>time.Now()\<close> reads in it.
  \<open>disk.IOCounters\<close> returns a map; its values are listed in the order the \<open>range\<close> loop
  visits them.
\<close>

record cpu_probe =
  Percent_total :: "error + float64 slice"
  Percent_percpu :: "error + float64 slice"
  Avg :: "error + AvgStat"
  cpu_Now :: Time

record mem_probe =
  VirtualMemory :: "error + VirtualMemoryStat"
  SwapMemory :: "error + SwapMemoryStat"
  mem_Now :: Time

record disk_probe =
  Usage :: "error + UsageStat"
  disk_IOCounters :: "error + DiskIOCountersStat list"
  disk_Now :: Time

record net_probe =
  net_IOCounters :: "error + NetIOCountersStat slice"
  net_Now :: Time

section \<open>The collectors (package collect)\<close>

text \<open>
  The four collector structs have the same two fields (\<open>output_ch\<close> is the field \<open>output\<close>);
  \<open>col_log\<close> collects what the collector prints.
\<close>

record Collector =
  interval :: Duration
  output_ch :: "Metric chan"
  col_log :: "logline list"


definition NewMemoryCollector :: "Duration \<Rightarrow> Metric chan \<Rightarrow> Collector" where
  "NewMemoryCollector i out = \<lparr>interval = i, output_ch = out, col_log = []\<rparr>"

definition NewDiskCollector :: "Duration \<Rightarrow> Metric chan \<Rightarrow> Collector" where
  "NewDiskCollector i out = \<lparr>interval = i, output_ch = out, col_log = []\<rparr>"

definition NewNetworkCollector :: "Duration \<Rightarrow> Metric chan \<Rightarrow> Collector" where
  "NewNetworkCollector i out = \<lparr>interval = i, output_ch = out, col_log = []\<rparr>"

text \<open>The cases of the loops' \<open>select\<close>: the context's \<open>Done\<close> channel and the ticker.\<close>

datatype 'p loop_case = DoneCase | TickCase 'p

definition loop_ready :: "'p obs \<Rightarrow> 'p loop_case list" where
  "loop_ready ob =
     (if ctx_done ob then [DoneCase] else []) @
     (case tick ob of None \<Rightarrow> [] | Some p \<Rightarrow> [TickCase p])"

text \<open>The loop's \<open>select\<close> took the ticker case, in a cycle whose probes return \<open>p\<close>.\<close>

definition chose_tick :: "'p obs \<Rightarrow> 'p \<Rightarrow> bool" where
  "chose_tick ob p = (select_blocking (pick ob) (loop_ready ob) = Some (TickCase p))"

text \<open>Indexing a slice panics out of range.\<close>

definition index :: "'a slice \<Rightarrow> nat \<Rightarrow> 'a option" where
  "index s i =
     (case s of None \<Rightarrow> None | Some xs \<Rightarrow> if i < length xs then Some (xs ! i) else None)"

subsection \<open>CPU\<close>

datatype 'a result = Ok 'a | Err error | Panics panic

definition collectCPUMetrics :: "cpu_probe \<Rightarrow> Collector \<Rightarrow> Collector \<times> Metric result" where
  "collectCPUMetrics p c =
     (case Percent_total p of
        Inl err \<Rightarrow> (c, Err err)
      | Inr overallPercent \<Rightarrow>
          (case Percent_percpu p of
             Inl err \<Rightarrow> (c, Err err)
           | Inr perCorePercent \<Rightarrow>
               (let (c', loadAvg) =
                      (case Avg p of
                         Inl err \<Rightarrow>
                           (c\<lparr>col_log := col_log c @ [WarningLoadAverage err]\<rparr>,
                            \<lparr>Load1 = Float64 0, Load5 = Float64 0, Load15 = Float64 0\<rparr>)
                       | Inr l \<Rightarrow> (c, l))
                in case index overallPercent 0 of
                     None \<Rightarrow> (c', Panics IndexOutOfRange)
                   | Some overall \<Rightarrow>
                       (c', Ok \<lparr>Type = ''cpu'', metric_Timestamp = cpu_Now p,
                                Data = CPU_any
                                  \<lparr>OverallPercent = overall,
                                   PerCorePercent = perCorePercent,
                                   LoadAverage =
                                     Some [Load1 loadAvg, Load5 loadAvg, Load15 loadAvg]\<rparr>\<rparr>))))"

text \<open>
  The body of the ticker case of \<open>CPUCollector.Start\<close>. \<open>Running\<close> is reaching the end of
  the body (or \<open>continue\<close>), \<open>Returned\<close> is \<open>return\<close>. The hand-off is a \<open>select\<close> with a send
  case, a \<open>ctx.Done()\<close> case and a \<open>default\<close>.
\<close>

definition CPU_tick :: "cpu_probe obs \<Rightarrow> cpu_probe \<Rightarrow> Collector \<Rightarrow> Collector run" where
  "CPU_tick ob p c =
     (case collectCPUMetrics p c of
        (c', Panics pn) \<Rightarrow> Panicked pn
      | (c', Err err) \<Rightarrow> Running (c'\<lparr>col_log := col_log c' @ [ErrorCollecting ''CPU'' err]\<rparr>)
      | (c', Ok metric) \<Rightarrow>
          (case select_default (send_pick ob)
                  ((if can_send (output_ch c') then [SendCase] else []) @
                   (if send_ctx_done ob then [CtxDoneCase] else []))
                  DefaultCase of
             SendCase \<Rightarrow> Running (c'\<lparr>output_ch := enqueue metric (output_ch c')\<rparr>)
           | CtxDoneCase \<Rightarrow> Returned c'
           | DefaultCase \<Rightarrow> Running (c'\<lparr>col_log := col_log c' @ [MetricDropped ''CPU'']\<rparr>)))"

fun CPU_loop :: "cpu_probe obs list \<Rightarrow> Collector \<Rightarrow> Collector run" where
  "CPU_loop [] c = Running c"
| "CPU_loop (ob # obs) c =
     (case select_blocking (pick ob) (loop_ready ob) of
        None \<Rightarrow> CPU_loop obs c
      | Some DoneCase \<Rightarrow> Returned (c\<lparr>col_log := col_log c @ [CollectorStopping ''CPU'']\<rparr>)
      | Some (TickCase p) \<Rightarrow>
          (case CPU_tick ob p c of
             Running c' \<Rightarrow> CPU_loop obs c'
           | Returned c' \<Rightarrow> Returned c'
           | Panicked pn \<Rightarrow> Panicked pn))"

definition CPU_Start :: "cpu_probe obs list \<Rightarrow> Collector \<Rightarrow> Collector run" where
  "CPU_Start obs c =
     (if interval c \<le> 0 then Panicked NonPositiveTickerInterval
      else CPU_loop obs (c\<lparr>col_log := col_log c @ [CollectorStarted ''CPU'']\<rparr>))"

subsection \<open>Memory\<close>

definition Memory_collectAndSend :: "mem_probe \<Rightarrow> Collector \<Rightarrow> Collector" where
  "Memory_collectAndSend p c =
     (case VirtualMemory p of
        Inl err \<Rightarrow> c\<lparr>col_log := col_log c @ [ErrorCollecting ''virtual memory'' err]\<rparr>
      | Inr vmem \<Rightarrow>
          (case SwapMemory p of
             Inl err \<Rightarrow> c\<lparr>col_log := col_log c @ [ErrorCollecting ''swap memory'' err]\<rparr>
           | Inr swap \<Rightarrow>
               (let memMetric =
                      \<lparr>mem_TotalBytes = vm_Total vmem, mem_AvailableBytes = vm_Available vmem,
                       mem_UsedBytes = vm_Used vmem, mem_UsedPercent = vm_UsedPercent vmem,
                       SwapTotalBytes = swap_Total swap, SwapUsedBytes = swap_Used swap,
                       SwapUsedPercent = swap_UsedPercent swap\<rparr>;
                    metric =
                      \<lparr>Type = ''memory'', metric_Timestamp = mem_Now p,
                       Data = Memory_any memMetric\<rparr>
                in case try_send metric (output_ch c) of
                     (True, ch) \<Rightarrow> c\<lparr>output_ch := ch\<rparr>
                   | (False, ch) \<Rightarrow>
                       c\<lparr>col_log := col_log c @ [MetricDropped ''Memory'']\<rparr>)))"

fun Memory_loop :: "mem_probe obs list \<Rightarrow> Collector \<Rightarrow> Collector run" where
  "Memory_loop [] c = Running c"
| "Memory_loop (ob # obs) c =
     (case select_blocking (pick ob) (loop_ready ob) of
        None \<Rightarrow> Memory_loop obs c
      | Some DoneCase \<Rightarrow>
          Returned (c\<lparr>col_log := col_log c @ [CollectorStopping ''Memory'']\<rparr>)
      | Some (TickCase p) \<Rightarrow> Memory_loop obs (Memory_collectAndSend p c))"

text \<open>\<open>Start\<close> collects once before it enters the loop; \<open>p0\<close> is what the probes return then.\<close>

definition Memory_Start :: "mem_probe \<Rightarrow> mem_probe obs list \<Rightarrow> Collector \<Rightarrow> Collector run" where
  "Memory_Start p0 obs c =
     (if interval c \<le> 0 then Panicked NonPositiveTickerInterval
      else Memory_loop obs (Memory_collectAndSend p0 c))"

subsection \<open>Disk\<close>

definition Disk_collectAndSend :: "disk_probe \<Rightarrow> Collector \<Rightarrow> Collector" where
  "Disk_collectAndSend p c =
     (case Usage p of
        Inl err \<Rightarrow> c\<lparr>col_log := col_log c @ [ErrorCollecting ''disk usage'' err]\<rparr>
      | Inr usage \<Rightarrow>
          (case disk_IOCounters p of
             Inl err \<Rightarrow> c\<lparr>col_log := col_log c @ [ErrorCollecting ''disk I/O'' err]\<rparr>
           | Inr ioCounters \<Rightarrow>
               (let totalReadBytes = foldl (\<lambda>t io. t + io_ReadBytes io) 0 ioCounters;
                    totalWriteBytes = foldl (\<lambda>t io. t + io_WriteBytes io) 0 ioCounters;
                    totalReadOps = foldl (\<lambda>t io. t + io_ReadCount io) 0 ioCounters;
                    totalWriteOps = foldl (\<lambda>t io. t + io_WriteCount io) 0 ioCounters;
                    diskMetric =
                      \<lparr>disk_TotalBytes = usage_Total usage, disk_FreeBytes = usage_Free usage,
                       disk_UsedBytes = usage_Used usage,
                       disk_UsedPercent = usage_UsedPercent usage,
                       ReadBytes = totalReadBytes, WriteBytes = totalWriteBytes,
                       ReadOps = totalReadOps, WriteOps = totalWriteOps\<rparr>;
                    metric =
                      \<lparr>Type = ''disk'', metric_Timestamp = disk_Now p,
                       Data = Disk_any diskMetric\<rparr>
                in case try_send metric (output_ch c) of
                     (True, ch) \<Rightarrow> c\<lparr>output_ch := ch\<rparr>
                   | (False, ch) \<Rightarrow>
                       c\<lparr>col_log := col_log c @ [MetricDropped ''Disk'']\<rparr>)))"

fun Disk_loop :: "disk_probe obs list \<Rightarrow> Collector \<Rightarrow> Collector run" where
  "Disk_loop [] c = Running c"
| "Disk_loop (ob # obs) c =
     (case select_blocking (pick ob) (loop_ready ob) of
        None \<Rightarrow> Disk_loop obs c
      | Some DoneCase \<Rightarrow>
          Returned (c\<lparr>col_log := col_log c @ [CollectorStopping ''Disk'']\<rparr>)
      | Some (TickCase p) \<Rightarrow> Disk_loop obs (Disk_collectAndSend p c))"

definition Disk_Start :: "disk_probe \<Rightarrow> disk_probe obs list \<Rightarrow> Collector \<Rightarrow> Collector run" where
  "Disk_Start p0 obs c =
     (if interval c \<le> 0 then Panicked NonPositiveTickerInterval
      else Disk_loop obs (Disk_collectAndSend p0 c))"

subsection \<open>Network\<close>

definition Network_collectAndSend :: "net_probe \<Rightarrow> Collector \<Rightarrow> Collector" where
  "Network_collectAndSend p c =
     (case net_IOCounters p of
        Inl err \<Rightarrow> c\<lparr>col_log := col_log c @ [ErrorCollecting ''network'' err]\<rparr>
      | Inr ioCounters \<Rightarrow>
          (case index ioCounters 0 of
             None \<Rightarrow> c\<lparr>col_log := col_log c @ [NoNetworkInterfaces]\<rparr>
           | Some netStats \<Rightarrow>
               (let networkMetric =
                      \<lparr>BytesSent = io_BytesSent netStats, BytesRecv = io_BytesRecv netStats,
                       PacketsSent = io_PacketsSent netStats,
                       PacketsRecv = io_PacketsRecv netStats,
                       ErrorsIn = Errin netStats, ErrorsOut = Errout netStats,
                       DropsIn = Dropin netStats, DropsOut = Dropout netStats\<rparr>;
                    metric =
                      \<lparr>Type = ''network'', metric_Timestamp = net_Now p,
                       Data = Network_any networkMetric\<rparr>
                in case try_send metric (output_ch c) of
                     (True, ch) \<Rightarrow> c\<lparr>output_ch := ch\<rparr>
                   | (False, ch) \<Rightarrow>
                       c\<lparr>col_log := col_log c @ [MetricDropped ''Network'']\<rparr>)))"

fun Network_loop :: "net_probe obs list \<Rightarrow> Collector \<Rightarrow> Collector run" where
  "Network_loop [] c = Running c"
| "Network_loop (ob # obs) c =
     (case select_blocking (pick ob) (loop_ready ob) of
        None \<Rightarrow> Network_loop obs c
      | Some DoneCase \<Rightarrow>
          Returned (c\<lparr>col_log := col_log c @ [CollectorStopping ''Network'']\<rparr>)
      | Some (TickCase p) \<Rightarrow> Network_loop obs (Network_collectAndSend p c))"

definition Network_Start :: "net_probe \<Rightarrow> net_probe obs list \<Rightarrow> Collector \<Rightarrow> Collector run" where
  "Network_Start p0 obs c =
     (if interval c \<le> 0 then Panicked NonPositiveTickerInterval
      else Network_loop obs (Network_collectAndSend p0 c))"

section \<open>Sequences of channel operations\<close>




section \<open>Configuration (package main)\<close>

text \<open>
  The process environment maps names to values; \<open>os.Getenv\<close> returns the empty string for
  a name that is not set.
\<close>

type_synonym environ = "string \<Rightarrow> string option"

definition Getenv :: "environ \<Rightarrow> string \<Rightarrow> string" where
  "Getenv env key = (case env key of None \<Rightarrow> [] | Some v \<Rightarrow> v)"

text \<open>
  \<open>strconv.Atoi\<close> of the Go standard library: an optional sign followed by one or more
  decimal digits, with a value that fits the 64-bit \<open>int\<close>; anything else is an error.
\<close>

definition is_digit :: "char \<Rightarrow> bool" where
  "is_digit c = (48 \<le> (of_char c :: nat) \<and> (of_char c :: nat) \<le> 57)"

definition digits_value :: "string \<Rightarrow> int" where
  "digits_value ds = foldl (\<lambda>n c. n * 10 + (int (of_char c) - 48)) 0 ds"

definition Atoi :: "string \<Rightarrow> error + int" where
  "Atoi s =
     (let (neg, ds) =
            (case s of
               [] \<Rightarrow> (False, [])
             | c # cs \<Rightarrow>
                 if c = CHR ''-'' then (True, cs)
                 else if c = CHR ''+'' then (False, cs)
                 else (False, s))
      in if ds = [] \<or> \<not> list_all is_digit ds then Inl ''invalid syntax''
         else (let v = (if neg then - digits_value ds else digits_value ds)
               in if v < - (2 ^ 63) \<or> 2 ^ 63 - 1 < v then Inl ''value out of range''
                  else Inr v))"

definition getEnv :: "environ \<Rightarrow> string \<Rightarrow> string \<Rightarrow> string" where
  "getEnv env key defaultValue =
     (let v = Getenv env key in if v \<noteq> [] then v else defaultValue)"

text \<open>\<open>time.ParseDuration\<close> of the standard library is a parameter.\<close>

definition getEnvDuration ::
  "(string \<Rightarrow> error + Duration) \<Rightarrow> environ \<Rightarrow> string \<Rightarrow> Duration \<Rightarrow> Duration" where
  "getEnvDuration ParseDuration env key defaultValue =
     (let v = Getenv env key
      in if v \<noteq> [] then
           (case ParseDuration v of Inr duration \<Rightarrow> duration | Inl err \<Rightarrow> defaultValue)
         else defaultValue)"

definition getEnvInt :: "environ \<Rightarrow> string \<Rightarrow> int \<Rightarrow> int" where
  "getEnvInt env key defaultValue =
     (let v = Getenv env key
      in if v \<noteq> [] then
           (case Atoi v of Inr intVal \<Rightarrow> intVal | Inl err \<Rightarrow> defaultValue)
         else defaultValue)"

text \<open>The configuration \<open>main\<close> reads before it builds the pipeline.\<close>

record Config =
  port :: string
  collectorInterval :: Duration
  cfg_sampleInterval :: Duration
  bufferSize :: int

definition main_config :: "(string \<Rightarrow> error + Duration) \<Rightarrow> environ \<Rightarrow> Config" where
  "main_config ParseDuration env =
     \<lparr>port = getEnv env ''PORT'' ''8080'',
      collectorInterval = getEnvDuration ParseDuration env ''COLLECTOR_INTERVAL'' (5 * Second),
      cfg_sampleInterval =
        getEnvDuration ParseDuration env ''SAMPLE_INTERVAL'' (250 * Millisecond),
      bufferSize = getEnvInt env ''BUFFER_SIZE'' 100\<rparr>"

section \<open>Example values\<close>

definition cpu_payload :: "nat \<Rightarrow> CPUMetric" where
  "cpu_payload n =
     \<lparr>OverallPercent = Float64 (of_nat n), PerCorePercent = Some [Float64 (of_nat n)],
      LoadAverage = Some [Float64 0, Float64 0, Float64 0]\<rparr>"

definition mem_payload :: "nat \<Rightarrow> MemoryMetric" where
  "mem_payload n = MemoryMetric_zero\<lparr>mem_TotalBytes := of_nat n\<rparr>"

definition disk_payload :: "nat \<Rightarrow> DiskMetric" where
  "disk_payload n = DiskMetric_zero\<lparr>disk_TotalBytes := of_nat n\<rparr>"

definition net_payload :: "nat \<Rightarrow> NetworkMetric" where
  "net_payload n = NetworkMetric_zero\<lparr>BytesSent := of_nat n\<rparr>"

definition cpu_at :: "Time \<Rightarrow> nat \<Rightarrow> Metric" where
  "cpu_at t n = \<lparr>Type = ''cpu'', metric_Timestamp = t, Data = CPU_any (cpu_payload n)\<rparr>"

definition mem_at :: "Time \<Rightarrow> nat \<Rightarrow> Metric" where
  "mem_at t n = \<lparr>Type = ''memory'', metric_Timestamp = t, Data = Memory_any (mem_payload n)\<rparr>"

definition disk_at :: "Time \<Rightarrow> nat \<Rightarrow> Metric" where
  "disk_at t n = \<lparr>Type = ''disk'', metric_Timestamp = t, Data = Disk_any (disk_payload n)\<rparr>"

definition net_at :: "Time \<Rightarrow> nat \<Rightarrow> Metric" where
  "net_at t n = \<lparr>Type = ''network'', metric_Timestamp = t, Data = Network_any (net_payload n)\<rparr>"

text \<open>A metric tagged \<open>cpu\<close> that carries a memory payload.\<close>

definition mistagged :: Metric where
  "mistagged = \<lparr>Type = ''cpu'', metric_Timestamp = 5, Data = Memory_any (mem_payload 7)\<rparr>"

text \<open>The aggregator \<open>NewAggregator(250*time.Millisecond, 2)\<close> returns.\<close>

definition agg0 :: Aggregator where
  "agg0 =
     \<lparr>metricsChan = queue [] 2, latestSample = Sample_zero,
      currentCPU = None, currentMemory = None, currentDisk = None, currentNetwork = None,
      promMetrics = [], sampleInterval = 250 * Millisecond, agg_log = []\<rparr>"

text \<open>
  A run in which three hand-offs meet a channel of capacity two, the loop receives, publishes
  twice and is then cancelled; and a run that receives two metrics and has not published.
\<close>

definition run_example :: "agg_event list" where
  "run_example =
     [Send (cpu_at 1 10), Send (mem_at 2 20), Send (disk_at 3 30),
      Select (at_select False (Some 100) 0),
      Select (at_select False (Some 200) 1),
      Select (at_select False None 0),
      Send (net_at 4 40),
      Select (at_select False (Some 300) 0),
      Select (at_select False (Some 400) 0),
      Select (at_select True (Some 500) 0)]"

definition quiet_example :: "agg_event list" where
  "quiet_example =
     [Send (cpu_at 1 10), Select (at_select False None 0), Send (mem_at 2 20),
      Select (at_select False (Some 100) 0)]"

text \<open>Collectors on a mailbox of capacity two, empty and full, and healthy probes.\<close>

definition c_room :: Collector where
  "c_room = \<lparr>interval = 5 * Second, output_ch = queue [] 2, col_log = []\<rparr>"

definition c_full :: Collector where
  "c_full =
     \<lparr>interval = 5 * Second, output_ch = queue [cpu_at 1 10, mem_at 2 20] 2,
      col_log = []\<rparr>"

definition cpu_ok :: cpu_probe where
  "cpu_ok =
     \<lparr>Percent_total = Inr (Some [Float64 10]), Percent_percpu = Inr (Some [Float64 10]),
      Avg = Inr \<lparr>Load1 = Float64 0, Load5 = Float64 0, Load15 = Float64 0\<rparr>, cpu_Now = 7\<rparr>"

definition cpu_noload :: cpu_probe where
  "cpu_noload = cpu_ok\<lparr>Avg := Inl ''not implemented yet''\<rparr>"

definition mem_ok :: mem_probe where
  "mem_ok =
     \<lparr>VirtualMemory =
        Inr \<lparr>vm_Total = 20, vm_Available = 0, vm_Used = 0, vm_UsedPercent = Float64 0\<rparr>,
      SwapMemory = Inr \<lparr>swap_Total = 0, swap_Used = 0, swap_UsedPercent = Float64 0\<rparr>,
      mem_Now = 7\<rparr>"

definition disk_ok :: disk_probe where
  "disk_ok =
     \<lparr>Usage =
        Inr \<lparr>usage_Total = 30, usage_Free = 0, usage_Used = 0, usage_UsedPercent = Float64 0\<rparr>,
      disk_IOCounters = Inr [], disk_Now = 7\<rparr>"

definition net_ok :: net_probe where
  "net_ok =
     \<lparr>net_IOCounters =
        Inr (Some [\<lparr>io_BytesSent = 40, io_BytesRecv = 0, io_PacketsSent = 0, io_PacketsRecv = 0,
                    Errin = 0, Errout = 0, Dropin = 0, Dropout = 0\<rparr>]),
      net_Now = 7\<rparr>"

text \<open>
  Arrivals at a loop's \<open>select\<close>: a pending tick with the context cancelled only by the
  time of the hand-off; a pending tick and no cancellation; cancellation and no tick.
\<close>

definition mid_send_cancel :: "'p \<Rightarrow> 'p obs" where
  "mid_send_cancel p =
     \<lparr>ctx_done = False, tick = Some p, pick = 0, send_ctx_done = True, send_pick = 0\<rparr>"

definition tick_with :: "'p \<Rightarrow> 'p obs" where
  "tick_with p = at_select False (Some p) 0"

definition cancelled_idle :: "'p obs" where
  "cancelled_idle = at_select True None 0"

text \<open>
  The probes of the capacity-two scenario, read at the times 0, 1, 2 and 3; an arrival of
  the aggregator at its \<open>select\<close> with no tick pending and no cancellation; the aggregator
  \<open>NewAggregator(250*time.Millisecond, 0)\<close> returns, and its channel once the loop is parked.
\<close>

definition cpu_t0 :: cpu_probe where
  "cpu_t0 = cpu_ok\<lparr>cpu_Now := 0\<rparr>"

definition mem_t1 :: mem_probe where
  "mem_t1 = mem_ok\<lparr>mem_Now := 1\<rparr>"

definition disk_t2 :: disk_probe where
  "disk_t2 = disk_ok\<lparr>disk_Now := 2\<rparr>"

definition net_t3 :: net_probe where
  "net_t3 = net_ok\<lparr>net_Now := 3\<rparr>"




text \<open>Environments of the process, and stand-ins for \<open>time.ParseDuration\<close>.\<close>

definition no_durations :: "string \<Rightarrow> error + Duration" where
  "no_durations s = Inl ''time: invalid duration''"

definition seconds_parser :: "string \<Rightarrow> error + Duration" where
  "seconds_parser s =
     (if s = ''1s'' then Inr Second else if s = ''0s'' then Inr 0
      else Inl ''time: invalid duration'')"

definition env_negative :: environ where
  "env_negative = [''BUFFER_SIZE'' \<mapsto> ''-5'']"

definition env_zero :: environ where
  "env_zero = [''BUFFER_SIZE'' \<mapsto> ''0'']"

definition env_garbled :: environ where
  "env_garbled = [''BUFFER_SIZE'' \<mapsto> ''many'', ''PORT'' \<mapsto> ''9090'']"

definition env_sized :: environ where
  "env_sized =
     [''BUFFER_SIZE'' \<mapsto> ''64'', ''COLLECTOR_INTERVAL'' \<mapsto> ''1s'',
      ''SAMPLE_INTERVAL'' \<mapsto> ''0s'']"

lemmas example_defs = cpu_at_def mem_at_def disk_at_def net_at_def

lemmas agg_run_defs = Aggregator_Start_def agg0_def at_select_def agg_ready_def
  try_send_def select_default_def can_send_def enqueue_def recv_def queue_def example_defs
  storeMetric_def createSample_def Let_def Millisecond_def

lemmas probe_defs = cpu_ok_def cpu_noload_def mem_ok_def disk_ok_def net_ok_def
  cpu_t0_def mem_t1_def disk_t2_def net_t3_def

lemmas worker_run_defs = c_room_def c_full_def tick_with_def cancelled_idle_def
  mid_send_cancel_def at_select_def loop_ready_def chose_tick_def Let_def
  try_send_def select_default_def can_send_def enqueue_def index_def queue_def example_defs

lemmas loop_Cons = CPU_loop.simps(2) Memory_loop.simps(2) Disk_loop.simps(2)
  Network_loop.simps(2)

section \<open>Storing metrics\<close>

lemma NewAggregator_agg0: "NewAggregator (250 * Millisecond) 2 = Inr agg0"
  by (simp add: NewAggregator_def make_chan_def agg0_def queue_def Metric_size_def
      maxAlloc_def hchanSize_def)

lemma NewAggregator_fresh:
  "NewAggregator si n = Inr a \<Longrightarrow>
   latestSample a = Sample_zero \<and> promMetrics a = []"
  by (auto simp: NewAggregator_def split: sum.splits)

lemma last_of_kind_Nil: "last_of_kind k [] = None"
  by (simp add: last_of_kind_def)

lemma last_of_kind_snoc:
  "last_of_kind k (ms @ [m]) = (if Type m = k then Some m else last_of_kind k ms)"
  by (simp add: last_of_kind_def)

lemma storeMetrics_snoc: "storeMetrics (ms @ [m]) a = storeMetric m (storeMetrics ms a)"
  by (simp add: storeMetrics_def)

lemma storeMetric_Measurement_CPU:
  "Measurement m \<Longrightarrow>
   currentCPU (storeMetric m a) = (if Type m = ''cpu'' then as_CPU (Data m) else currentCPU a)"
  by (auto simp: Measurement_def storeMetric_def as_CPU_def split: any.splits)

lemma storeMetric_Measurement_Memory:
  "Measurement m \<Longrightarrow>
   currentMemory (storeMetric m a) =
     (if Type m = ''memory'' then as_Memory (Data m) else currentMemory a)"
  by (auto simp: Measurement_def storeMetric_def as_Memory_def split: any.splits)

lemma storeMetric_Measurement_Disk:
  "Measurement m \<Longrightarrow>
   currentDisk (storeMetric m a) = (if Type m = ''disk'' then as_Disk (Data m) else currentDisk a)"
  by (auto simp: Measurement_def storeMetric_def as_Disk_def split: any.splits)

lemma storeMetric_Measurement_Network:
  "Measurement m \<Longrightarrow>
   currentNetwork (storeMetric m a) =
     (if Type m = ''network'' then as_Network (Data m) else currentNetwork a)"
  by (auto simp: Measurement_def storeMetric_def as_Network_def split: any.splits)

lemma storeMetrics_CPU:
  "\<forall>m \<in> set ms. Measurement m \<Longrightarrow>
   currentCPU (storeMetrics ms a) =
     (case last_of_kind ''cpu'' ms of None \<Rightarrow> currentCPU a | Some m \<Rightarrow> as_CPU (Data m))"
proof (induction ms rule: rev_induct)
  case Nil
  show ?case by (simp add: last_of_kind_Nil storeMetrics_def)
next
  case (snoc m ms)
  then show ?case
    by (simp add: storeMetrics_snoc last_of_kind_snoc storeMetric_Measurement_CPU)
qed

lemma storeMetrics_Memory:
  "\<forall>m \<in> set ms. Measurement m \<Longrightarrow>
   currentMemory (storeMetrics ms a) =
     (case last_of_kind ''memory'' ms of None \<Rightarrow> currentMemory a
      | Some m \<Rightarrow> as_Memory (Data m))"
proof (induction ms rule: rev_induct)
  case Nil
  show ?case by (simp add: last_of_kind_Nil storeMetrics_def)
next
  case (snoc m ms)
  then show ?case
    by (simp add: storeMetrics_snoc last_of_kind_snoc storeMetric_Measurement_Memory)
qed

lemma storeMetrics_Disk:
  "\<forall>m \<in> set ms. Measurement m \<Longrightarrow>
   currentDisk (storeMetrics ms a) =
     (case last_of_kind ''disk'' ms of None \<Rightarrow> currentDisk a | Some m \<Rightarrow> as_Disk (Data m))"
proof (induction ms rule: rev_induct)
  case Nil
  show ?case by (simp add: last_of_kind_Nil storeMetrics_def)
next
  case (snoc m ms)
  then show ?case
    by (simp add: storeMetrics_snoc last_of_kind_snoc storeMetric_Measurement_Disk)
qed

lemma storeMetrics_Network:
  "\<forall>m \<in> set ms. Measurement m \<Longrightarrow>
   currentNetwork (storeMetrics ms a) =
     (case last_of_kind ''network'' ms of None \<Rightarrow> currentNetwork a
      | Some m \<Rightarrow> as_Network (Data m))"
proof (induction ms rule: rev_induct)
  case Nil
  show ?case by (simp add: last_of_kind_Nil storeMetrics_def)
next
  case (snoc m ms)
  then show ?case
    by (simp add: storeMetrics_snoc last_of_kind_snoc storeMetric_Measurement_Network)
qed

text \<open>
  Claim C1. After any finite sequence of Measurements has been delivered to \<open>storeMetric\<close>,
  the slot of each of the four kinds holds the payload of the last Measurement of that kind
  in the sequence, wherever the Measurements of the other kinds stand in it; a kind that
  does not occur leaves its slot as it was.
\<close>

theorem storeMetric_last_write_wins:
  assumes "\<forall>m \<in> set ms. Measurement m"
  shows "currentCPU (storeMetrics ms a) =
           (case last_of_kind ''cpu'' ms of None \<Rightarrow> currentCPU a
            | Some m \<Rightarrow> as_CPU (Data m))
       \<and> currentMemory (storeMetrics ms a) =
           (case last_of_kind ''memory'' ms of None \<Rightarrow> currentMemory a
            | Some m \<Rightarrow> as_Memory (Data m))
       \<and> currentDisk (storeMetrics ms a) =
           (case last_of_kind ''disk'' ms of None \<Rightarrow> currentDisk a
            | Some m \<Rightarrow> as_Disk (Data m))
       \<and> currentNetwork (storeMetrics ms a) =
           (case last_of_kind ''network'' ms of None \<Rightarrow> currentNetwork a
            | Some m \<Rightarrow> as_Network (Data m))"
  using assms storeMetrics_CPU storeMetrics_Memory storeMetrics_Disk storeMetrics_Network
  by blast

theorem storeMetric_last_write_wins_witness:
  "Measurement (cpu_at 1 10) \<and> Measurement (mem_at 2 20) \<and> Measurement (cpu_at 3 30)
   \<and> Measurement (disk_at 4 40)
   \<and> currentCPU (storeMetrics [cpu_at 1 10, mem_at 2 20, cpu_at 3 30, disk_at 4 40] agg0)
       = Some (cpu_payload 30)
   \<and> currentMemory (storeMetrics [cpu_at 1 10, mem_at 2 20, cpu_at 3 30, disk_at 4 40] agg0)
       = Some (mem_payload 20)
   \<and> currentDisk (storeMetrics [cpu_at 1 10, mem_at 2 20, cpu_at 3 30, disk_at 4 40] agg0)
       = Some (disk_payload 40)
   \<and> currentNetwork (storeMetrics [cpu_at 1 10, mem_at 2 20, cpu_at 3 30, disk_at 4 40] agg0)
       = None"
proof -
  have h: "\<forall>m \<in> set [cpu_at 1 10, mem_at 2 20, cpu_at 3 30, disk_at 4 40]. Measurement m"
    by (simp add: Measurement_def example_defs)
  show ?thesis
    using h storeMetric_last_write_wins [OF h, of agg0]
    by (simp add: last_of_kind_def example_defs as_CPU_def as_Memory_def as_Disk_def
        as_Network_def agg0_def)
qed

text \<open>
  Claim C10. A metric whose tag is one of \<open>cpu\<close>, \<open>memory\<close>, \<open>disk\<close>, \<open>network\<close> but whose
  payload is not a value of the struct type of that tag leaves the aggregator as it was:
  no slot is written and nothing is logged.
\<close>

theorem storeMetric_mismatch_discarded:
  assumes "recognized (Type m)" and "\<not> Measurement m"
  shows "storeMetric m a = a"
proof -
  from assms(1) consider "Type m = ''cpu''" | "Type m = ''memory''" | "Type m = ''disk''"
    | "Type m = ''network''"
    unfolding recognized_def by blast
  then show ?thesis
  proof cases
    case 1
    then show ?thesis using assms(2)
      by (cases "Data m") (simp_all add: Measurement_def storeMetric_def)
  next
    case 2
    then show ?thesis using assms(2)
      by (cases "Data m") (simp_all add: Measurement_def storeMetric_def)
  next
    case 3
    then show ?thesis using assms(2)
      by (cases "Data m") (simp_all add: Measurement_def storeMetric_def)
  next
    case 4
    then show ?thesis using assms(2)
      by (cases "Data m") (simp_all add: Measurement_def storeMetric_def)
  qed
qed

theorem storeMetric_mismatch_discarded_witness:
  "recognized (Type mistagged) \<and> \<not> Measurement mistagged
   \<and> storeMetric mistagged (storeMetrics [cpu_at 1 10] agg0) = storeMetrics [cpu_at 1 10] agg0
   \<and> currentCPU (storeMetric mistagged (storeMetrics [cpu_at 1 10] agg0))
       = Some (cpu_payload 10)"
proof -
  have r: "recognized (Type mistagged)"
    by (simp add: recognized_def mistagged_def)
  have n: "\<not> Measurement mistagged"
    by (simp add: Measurement_def mistagged_def)
  have c: "currentCPU (storeMetrics [cpu_at 1 10] agg0) = Some (cpu_payload 10)"
    by (simp add: storeMetrics_def storeMetric_def example_defs agg0_def)
  show ?thesis
    using r n c storeMetric_mismatch_discarded [OF r n, of "storeMetrics [cpu_at 1 10] agg0"]
    by simp
qed

text \<open>An unknown tag, by contrast, is logged; no slot is written either.\<close>

lemma storeMetric_unknown_logged:
  "\<not> recognized (Type m) \<Longrightarrow>
   storeMetric m a = a\<lparr>agg_log := agg_log a @ [UnknownMetricType (Type m)]\<rparr>"
  by (simp add: recognized_def storeMetric_def)

section \<open>Building samples\<close>

text \<open>
  Claim C7. When the CPU and Memory slots are set and the Disk and Network slots have never
  been written, the Sample that \<open>createSample\<close> publishes carries the stored CPU and Memory
  payloads, and its Disk and Network fields are the zero values of their types.
\<close>

theorem createSample_cpu_memory_only:
  assumes "currentCPU a = Some c" and "currentMemory a = Some m"
    and "currentDisk a = None" and "currentNetwork a = None"
  shows "GetLatestSample (createSample now a) =
           \<lparr>Timestamp = now, CPU = c, Memory = m, Disk = DiskMetric_zero,
            Network = NetworkMetric_zero\<rparr>"
  using assms by (simp add: GetLatestSample_def createSample_def Let_def)

theorem createSample_cpu_memory_only_witness:
  "currentCPU (storeMetrics [cpu_at 1 10, mem_at 2 20] agg0) = Some (cpu_payload 10)
   \<and> currentMemory (storeMetrics [cpu_at 1 10, mem_at 2 20] agg0) = Some (mem_payload 20)
   \<and> currentDisk (storeMetrics [cpu_at 1 10, mem_at 2 20] agg0) = None
   \<and> currentNetwork (storeMetrics [cpu_at 1 10, mem_at 2 20] agg0) = None
   \<and> GetLatestSample (createSample 3 (storeMetrics [cpu_at 1 10, mem_at 2 20] agg0)) =
       \<lparr>Timestamp = 3, CPU = cpu_payload 10, Memory = mem_payload 20, Disk = DiskMetric_zero,
        Network = NetworkMetric_zero\<rparr>"
proof -
  let ?a = "storeMetrics [cpu_at 1 10, mem_at 2 20] agg0"
  have h1: "currentCPU ?a = Some (cpu_payload 10)"
    by (simp add: storeMetrics_def storeMetric_def example_defs agg0_def)
  have h2: "currentMemory ?a = Some (mem_payload 20)"
    by (simp add: storeMetrics_def storeMetric_def example_defs agg0_def)
  have h3: "currentDisk ?a = None"
    by (simp add: storeMetrics_def storeMetric_def example_defs agg0_def)
  have h4: "currentNetwork ?a = None"
    by (simp add: storeMetrics_def storeMetric_def example_defs agg0_def)
  show ?thesis
    using h1 h2 h3 h4 createSample_cpu_memory_only [OF h1 h2 h3 h4, of 3] by simp
qed

section \<open>The aggregator loop\<close>

lemma select_blocking_mem:
  assumes "select_blocking p cs = Some c"
  shows "c \<in> set cs"
proof (cases cs)
  case Nil
  then show ?thesis using assms by simp
next
  case (Cons x xs)
  have "(x # xs) ! (p mod length (x # xs)) \<in> set (x # xs)"
    by (rule nth_mem) simp
  then show ?thesis using Cons assms by simp
qed

lemma agg_ready_Tick:
  "AggTick now \<in> set (agg_ready ob a) \<Longrightarrow> tick ob = Some now"
  by (auto simp: agg_ready_def split: if_splits option.splits)

lemma storeMetric_keeps_published:
  "promMetrics (storeMetric m a) = promMetrics a
   \<and> latestSample (storeMetric m a) = latestSample a"
  by (simp add: storeMetric_def split: any.splits)

lemma createSample_published:
  "promMetrics (createSample now a) = promMetrics a @ [latestSample (createSample now a)]
   \<and> Timestamp (latestSample (createSample now a)) = now"
  by (simp add: createSample_def Let_def)

text \<open>
  One event of the loop: it goes on or returns with nothing published, or it takes a pending
  tick and publishes one Sample stamped with the clock reading of that tick.
\<close>

definition same_published :: "Aggregator \<Rightarrow> Aggregator \<Rightarrow> bool" where
  "same_published a b = (promMetrics b = promMetrics a \<and> latestSample b = latestSample a)"

lemma same_published_chan: "same_published a (a\<lparr>metricsChan := ch\<rparr>)"
  by (simp add: same_published_def)

lemma same_published_store: "same_published a (storeMetric m (a\<lparr>metricsChan := ch\<rparr>))"
  by (simp add: same_published_def storeMetric_keeps_published)

lemma loop_event:
  "(\<exists>b. Aggregator_loop (e # es) a = Aggregator_loop es b \<and> same_published a b)
   \<or> (\<exists>b. Aggregator_loop (e # es) a = Returned b \<and> same_published a b)
   \<or> (\<exists>ob now b. e = Select ob \<and> tick ob = Some now
         \<and> Aggregator_loop (e # es) a = Aggregator_loop es b
         \<and> promMetrics b = promMetrics a @ [latestSample b]
         \<and> Timestamp (latestSample b) = now)"
proof (cases e)
  case (Send m)
  show ?thesis
  proof (cases "handed (snd (try_send m (metricsChan a)))")
    case None
    then have "Aggregator_loop (e # es) a =
        Aggregator_loop es (a\<lparr>metricsChan := snd (try_send m (metricsChan a))\<rparr>)"
      using Send by simp
    then show ?thesis using same_published_chan by blast
  next
    case (Some metric)
    then have "Aggregator_loop (e # es) a =
        Aggregator_loop es (storeMetric metric
          (a\<lparr>metricsChan := (snd (try_send m (metricsChan a)))\<lparr>handed := None\<rparr>\<rparr>))"
      using Send by simp
    then show ?thesis using same_published_store by blast
  qed
next
  case (Select ob)
  show ?thesis
  proof (cases "select_blocking (pick ob) (agg_ready ob a)")
    case None
    then have "Aggregator_loop (e # es) a =
        Aggregator_loop es (a\<lparr>metricsChan := (metricsChan a)\<lparr>recvq := True\<rparr>\<rparr>)"
      using Select by simp
    then show ?thesis using same_published_chan by blast
  next
    case (Some c)
    show ?thesis
    proof (cases c)
      case AggDone
      then have "Aggregator_loop (e # es) a =
          Returned (a\<lparr>metricsChan := (metricsChan a)\<lparr>recvq := False\<rparr>,
                     agg_log := agg_log a @ [AggregatorStopping]\<rparr>)"
        using Select Some by simp
      moreover have "same_published a
          (a\<lparr>metricsChan := (metricsChan a)\<lparr>recvq := False\<rparr>,
             agg_log := agg_log a @ [AggregatorStopping]\<rparr>)"
        by (simp add: same_published_def)
      ultimately show ?thesis by blast
    next
      case (AggRecv metric ch)
      then have "Aggregator_loop (e # es) a =
          Aggregator_loop es (storeMetric metric (a\<lparr>metricsChan := ch\<lparr>recvq := False\<rparr>\<rparr>))"
        using Select Some by simp
      then show ?thesis using same_published_store by blast
    next
      case (AggTick now)
      let ?b = "createSample now (a\<lparr>metricsChan := (metricsChan a)\<lparr>recvq := False\<rparr>\<rparr>)"
      have "AggTick now \<in> set (agg_ready ob a)"
        using Some AggTick select_blocking_mem by fastforce
      then have t: "tick ob = Some now" by (rule agg_ready_Tick)
      have l: "Aggregator_loop (e # es) a = Aggregator_loop es ?b"
        using Select Some AggTick by simp
      have p: "promMetrics ?b = promMetrics a @ [latestSample ?b]"
        "Timestamp (latestSample ?b) = now"
        by (simp_all add: createSample_def Let_def)
      show ?thesis using Select t l p by blast
    qed
  qed
qed

lemma Start_loop:
  "state_of (Aggregator_Start es a) = Some a' \<Longrightarrow>
   state_of (Aggregator_loop es
      (a\<lparr>agg_log := agg_log a @ [AggregatorStarted (sampleInterval a)]\<rparr>)) = Some a'"
  by (simp add: Aggregator_Start_def split: if_splits)

text \<open>
  The samples handed to the exporter only grow, and \<open>latestSample\<close> is the last of them
  once there is one.
\<close>

lemma loop_published:
  "state_of (Aggregator_loop es a) = Some a' \<Longrightarrow>
   \<exists>ss. promMetrics a' = promMetrics a @ ss
        \<and> latestSample a' = (if ss = [] then latestSample a else last ss)"
proof (induction es arbitrary: a)
  case Nil
  then show ?case by simp
next
  case (Cons e es)
  from loop_event[of e es a] consider
    (go) b where "Aggregator_loop (e # es) a = Aggregator_loop es b" "same_published a b"
  | (ret) b where "Aggregator_loop (e # es) a = Returned b" "same_published a b"
  | (pub) b where "Aggregator_loop (e # es) a = Aggregator_loop es b"
      "promMetrics b = promMetrics a @ [latestSample b]"
    by blast
  then show ?case
  proof cases
    case go
    then have "state_of (Aggregator_loop es b) = Some a'" using Cons.prems by simp
    from Cons.IH[OF this] obtain ss where
      "promMetrics a' = promMetrics b @ ss"
      "latestSample a' = (if ss = [] then latestSample b else last ss)"
      by blast
    then have "promMetrics a' = promMetrics a @ ss
        \<and> latestSample a' = (if ss = [] then latestSample a else last ss)"
      using go(2) by (simp add: same_published_def)
    then show ?thesis by (rule exI)
  next
    case ret
    then have "a' = b" using Cons.prems by simp
    then have "promMetrics a' = promMetrics a @ []
        \<and> latestSample a' = (if [] = ([] :: Sample list) then latestSample a else last [])"
      using ret(2) by (simp add: same_published_def)
    then show ?thesis by (rule exI)
  next
    case pub
    then have "state_of (Aggregator_loop es b) = Some a'" using Cons.prems by simp
    from Cons.IH[OF this] obtain ss where
      ss: "promMetrics a' = promMetrics b @ ss"
      "latestSample a' = (if ss = [] then latestSample b else last ss)"
      by blast
    have "promMetrics a' = promMetrics a @ (latestSample b # ss)
        \<and> latestSample a' =
            (if latestSample b # ss = [] then latestSample a else last (latestSample b # ss))"
      using ss pub(2) by simp
    then show ?thesis by (rule exI)
  qed
qed

lemma sorted_drop_middle: "sorted (xs @ y # ys) \<Longrightarrow> sorted (xs @ (ys :: int list))"
  by (auto simp: sorted_append)

lemma clock_reads_rest:
  "sorted (ts @ clock_reads (e # es)) \<Longrightarrow> sorted (ts @ clock_reads es)"
proof (cases e)
  case (Send m)
  assume "sorted (ts @ clock_reads (e # es))"
  then show ?thesis using Send by simp
next
  case (Select ob)
  assume s: "sorted (ts @ clock_reads (e # es))"
  show ?thesis
  proof (cases "tick ob")
    case None
    then show ?thesis using s Select by simp
  next
    case (Some now)
    then have "sorted (ts @ now # clock_reads es)" using s Select by simp
    then show ?thesis by (rule sorted_drop_middle)
  qed
qed

lemma loop_sorted:
  "sorted (map Timestamp (promMetrics a) @ clock_reads es) \<Longrightarrow>
   state_of (Aggregator_loop es a) = Some a' \<Longrightarrow>
   sorted (map Timestamp (promMetrics a'))"
proof (induction es arbitrary: a)
  case Nil
  then show ?case by simp
next
  case (Cons e es)
  have rest: "sorted (map Timestamp (promMetrics a) @ clock_reads es)"
    using Cons.prems(1) by (rule clock_reads_rest)
  from loop_event[of e es a] consider
    (go) b where "Aggregator_loop (e # es) a = Aggregator_loop es b" "same_published a b"
  | (ret) b where "Aggregator_loop (e # es) a = Returned b" "same_published a b"
  | (pub) ob now b where "e = Select ob" "tick ob = Some now"
      "Aggregator_loop (e # es) a = Aggregator_loop es b"
      "promMetrics b = promMetrics a @ [latestSample b]" "Timestamp (latestSample b) = now"
    by blast
  then show ?case
  proof cases
    case go
    then have 1: "state_of (Aggregator_loop es b) = Some a'" using Cons.prems(2) by simp
    have 2: "sorted (map Timestamp (promMetrics b) @ clock_reads es)"
      using rest go(2) by (simp add: same_published_def)
    from Cons.IH[OF 2 1] show ?thesis .
  next
    case ret
    then have "a' = b" using Cons.prems(2) by simp
    then have "promMetrics a' = promMetrics a"
      using ret(2) by (simp add: same_published_def)
    then show ?thesis using rest by (simp add: sorted_append)
  next
    case pub
    then have 1: "state_of (Aggregator_loop es b) = Some a'" using Cons.prems(2) by simp
    have "map Timestamp (promMetrics b) = map Timestamp (promMetrics a) @ [now]"
      using pub(4,5) by simp
    then have 2: "sorted (map Timestamp (promMetrics b) @ clock_reads es)"
      using Cons.prems(1) pub(1,2) by simp
    from Cons.IH[OF 2 1] show ?thesis .
  qed
qed

text \<open>
  Claim C6. \<open>GetLatestSample\<close>, called on an aggregator that has not yet published a Sample,
  returns the zero value of \<open>Sample\<close>: the zero timestamp and the zero value of each of the
  four payloads. This holds of the aggregator as \<open>NewAggregator\<close> returns it, and of every
  state its loop reaches without a publish, whatever metrics it has received so far.
\<close>

theorem GetLatestSample_before_publish:
  assumes "NewAggregator si n = Inr a"
    and "a' = a \<or> state_of (Aggregator_Start es a) = Some a' \<and> promMetrics a' = []"
  shows "Timestamp (GetLatestSample a') = 0
       \<and> CPU (GetLatestSample a') = CPUMetric_zero
       \<and> Memory (GetLatestSample a') = MemoryMetric_zero
       \<and> Disk (GetLatestSample a') = DiskMetric_zero
       \<and> Network (GetLatestSample a') = NetworkMetric_zero"
proof -
  have "latestSample a' = Sample_zero"
    using assms(2)
  proof
    assume "a' = a"
    then show ?thesis using NewAggregator_fresh[OF assms(1)] by simp
  next
    assume r: "state_of (Aggregator_Start es a) = Some a' \<and> promMetrics a' = []"
    let ?b = "a\<lparr>agg_log := agg_log a @ [AggregatorStarted (sampleInterval a)]\<rparr>"
    from r loop_published[OF Start_loop, of es a a'] obtain ss where
      "promMetrics a' = promMetrics ?b @ ss"
      "latestSample a' = (if ss = [] then latestSample ?b else last ss)"
      by blast
    then have "latestSample a' = latestSample a"
      using r by simp
    then show ?thesis
      using NewAggregator_fresh[OF assms(1)] by simp
  qed
  then show ?thesis by (simp add: GetLatestSample_def Sample_zero_def)
qed

theorem GetLatestSample_before_publish_witness:
  "NewAggregator (250 * Millisecond) 2 = Inr agg0
   \<and> GetLatestSample agg0 = Sample_zero
   \<and> (\<exists>a'. state_of (Aggregator_Start quiet_example agg0) = Some a'
        \<and> promMetrics a' = []
        \<and> currentCPU a' = Some (cpu_payload 10)
        \<and> currentMemory a' = Some (mem_payload 20)
        \<and> Timestamp (GetLatestSample a') = 0
        \<and> CPU (GetLatestSample a') = CPUMetric_zero
        \<and> Memory (GetLatestSample a') = MemoryMetric_zero
        \<and> Disk (GetLatestSample a') = DiskMetric_zero
        \<and> Network (GetLatestSample a') = NetworkMetric_zero)"
proof -
  have "\<exists>a'. state_of (Aggregator_Start quiet_example agg0) = Some a'
        \<and> promMetrics a' = []
        \<and> currentCPU a' = Some (cpu_payload 10)
        \<and> currentMemory a' = Some (mem_payload 20)"
    by (simp add: quiet_example_def agg_run_defs)
  then obtain a' where a':
    "state_of (Aggregator_Start quiet_example agg0) = Some a'"
    "promMetrics a' = []"
    "currentCPU a' = Some (cpu_payload 10)"
    "currentMemory a' = Some (mem_payload 20)"
    by (elim exE conjE)
  have z: "GetLatestSample agg0 = Sample_zero"
    using GetLatestSample_before_publish [OF NewAggregator_agg0, of agg0]
    by (simp add: Sample_zero_def)
  from GetLatestSample_before_publish [OF NewAggregator_agg0, of a' quiet_example] a'
  have "state_of (Aggregator_Start quiet_example agg0) = Some a'
        \<and> promMetrics a' = []
        \<and> currentCPU a' = Some (cpu_payload 10)
        \<and> currentMemory a' = Some (mem_payload 20)
        \<and> Timestamp (GetLatestSample a') = 0
        \<and> CPU (GetLatestSample a') = CPUMetric_zero
        \<and> Memory (GetLatestSample a') = MemoryMetric_zero
        \<and> Disk (GetLatestSample a') = DiskMetric_zero
        \<and> Network (GetLatestSample a') = NetworkMetric_zero"
    by simp
  then have "\<exists>a'. state_of (Aggregator_Start quiet_example agg0) = Some a'
        \<and> promMetrics a' = []
        \<and> currentCPU a' = Some (cpu_payload 10)
        \<and> currentMemory a' = Some (mem_payload 20)
        \<and> Timestamp (GetLatestSample a') = 0
        \<and> CPU (GetLatestSample a') = CPUMetric_zero
        \<and> Memory (GetLatestSample a') = MemoryMetric_zero
        \<and> Disk (GetLatestSample a') = DiskMetric_zero
        \<and> Network (GetLatestSample a') = NetworkMetric_zero"
    by (rule exI)
  with NewAggregator_agg0 z show ?thesis by (intro conjI)
qed

text \<open>
  Claim C9. The Samples one aggregator loop publishes carry non-decreasing timestamps, in the
  order in which they are published, provided the clock that \<open>createSample\<close> reads does not
  go backwards.
\<close>

theorem published_timestamps_sorted:
  assumes "sorted (clock_reads es)"
    and "NewAggregator si n = Inr a"
    and "state_of (Aggregator_Start es a) = Some a'"
  shows "sorted (map Timestamp (promMetrics a'))"
proof -
  let ?b = "a\<lparr>agg_log := agg_log a @ [AggregatorStarted (sampleInterval a)]\<rparr>"
  have "sorted (map Timestamp (promMetrics ?b) @ clock_reads es)"
    using NewAggregator_fresh[OF assms(2)] assms(1) by simp
  then show ?thesis using Start_loop[OF assms(3)] by (rule loop_sorted)
qed

theorem published_timestamps_sorted_witness:
  "sorted (clock_reads run_example)
   \<and> NewAggregator (250 * Millisecond) 2 = Inr agg0
   \<and> (\<exists>a'. state_of (Aggregator_Start run_example agg0) = Some a'
        \<and> map Timestamp (promMetrics a') = [200, 400]
        \<and> sorted (map Timestamp (promMetrics a')))"
proof -
  have s: "sorted (clock_reads run_example)"
    by (simp add: run_example_def at_select_def)
  have "\<exists>a'. state_of (Aggregator_Start run_example agg0) = Some a'
        \<and> map Timestamp (promMetrics a') = [200, 400]"
    by (simp add: run_example_def agg_run_defs)
  then obtain a' where a':
    "state_of (Aggregator_Start run_example agg0) = Some a'"
    "map Timestamp (promMetrics a') = [200, 400]"
    by (elim exE conjE)
  from published_timestamps_sorted [OF s NewAggregator_agg0 a'(1)] a'
  have "state_of (Aggregator_Start run_example agg0) = Some a'
      \<and> map Timestamp (promMetrics a') = [200, 400]
      \<and> sorted (map Timestamp (promMetrics a'))"
    by simp
  then have "\<exists>a'. state_of (Aggregator_Start run_example agg0) = Some a'
      \<and> map Timestamp (promMetrics a') = [200, 400]
      \<and> sorted (map Timestamp (promMetrics a'))"
    by (rule exI)
  with s NewAggregator_agg0 show ?thesis by (intro conjI)
qed

section \<open>The mailbox\<close>








section \<open>The collectors' loops\<close>

lemma CPU_loop_idle:
  "\<forall>ob \<in> set obs. tick ob = None \<Longrightarrow>
   CPU_loop obs c = Running c
   \<or> CPU_loop obs c = Returned (c\<lparr>col_log := col_log c @ [CollectorStopping ''CPU'']\<rparr>)"
proof (induction obs)
  case Nil
  show ?case by simp
next
  case (Cons ob obs)
  then have t: "tick ob = None" by simp
  show ?case
  proof (cases "ctx_done ob")
    case True
    then show ?thesis using t by (simp add: loop_ready_def)
  next
    case False
    then have "CPU_loop (ob # obs) c = CPU_loop obs c"
      using t by (simp add: loop_ready_def)
    then show ?thesis using Cons by simp
  qed
qed

text \<open>
  Claim C3. The Memory, Disk and Network collectors run one collection before they enter
  their loop, so before the first tick. The CPU collector does not: started with a positive
  interval, as long as no tick is pending it has only logged its start (and its stop, when
  cancelled); it has called no probe and has not touched the mailbox.
\<close>

theorem CPU_Start_waits_for_first_tick:
  assumes "0 < interval c" and "\<forall>ob \<in> set obs. tick ob = None"
  shows "(CPU_Start obs c = Running (c\<lparr>col_log := col_log c @ [CollectorStarted ''CPU'']\<rparr>)
          \<or> CPU_Start obs c =
              Returned (c\<lparr>col_log := col_log c @
                 [CollectorStarted ''CPU'', CollectorStopping ''CPU'']\<rparr>))
       \<and> Memory_Start pm obm c = Memory_loop obm (Memory_collectAndSend pm c)
       \<and> Disk_Start pd obd c = Disk_loop obd (Disk_collectAndSend pd c)
       \<and> Network_Start pn obn c = Network_loop obn (Network_collectAndSend pn c)"
proof -
  let ?c = "c\<lparr>col_log := col_log c @ [CollectorStarted ''CPU'']\<rparr>"
  from CPU_loop_idle[OF assms(2), of ?c]
  have "CPU_loop obs ?c = Running ?c
     \<or> CPU_loop obs ?c =
         Returned (c\<lparr>col_log := col_log c @
            [CollectorStarted ''CPU'', CollectorStopping ''CPU'']\<rparr>)"
    by simp
  then show ?thesis
    using assms(1)
    by (simp add: CPU_Start_def Memory_Start_def Disk_Start_def Network_Start_def)
qed

theorem CPU_Start_waits_for_first_tick_witness:
  "0 < interval c_room
   \<and> tick (at_select False (None :: cpu_probe option) 0) = None
   \<and> CPU_Start [at_select False None 0] c_room =
       Running (c_room\<lparr>col_log := [CollectorStarted ''CPU'']\<rparr>)
   \<and> buf (output_ch c_room) = []
   \<and> (\<exists>c'. Memory_Start mem_ok [at_select False None 0] c_room = Running c'
         \<and> length (buf (output_ch c')) = 1)"
proof -
  have i: "0 < interval c_room" by (simp add: c_room_def Second_def)
  have t: "\<forall>ob \<in> set [at_select False (None :: cpu_probe option) 0]. tick ob = None"
    by (simp add: at_select_def)
  have r: "CPU_Start [at_select False None 0] c_room \<noteq>
       Returned (c_room\<lparr>col_log := col_log c_room @
         [CollectorStarted ''CPU'', CollectorStopping ''CPU'']\<rparr>)"
    by (simp add: CPU_Start_def c_room_def Second_def at_select_def loop_ready_def)
  have m: "\<exists>c'. Memory_Start mem_ok [at_select False None 0] c_room = Running c'
         \<and> length (buf (output_ch c')) = 1"
    by (simp add: Memory_Start_def c_room_def Second_def at_select_def loop_ready_def
        Memory_collectAndSend_def mem_ok_def Let_def try_send_def select_default_def
        can_send_def enqueue_def queue_def)
  show ?thesis
    using i t r m CPU_Start_waits_for_first_tick [OF i t]
    by (simp add: c_room_def at_select_def queue_def)
qed

subsection \<open>Probe failures\<close>

lemma Memory_loop_tick:
  "chose_tick ob p \<Longrightarrow> Memory_loop (ob # obs) c = Memory_loop obs (Memory_collectAndSend p c)"
  by (simp add: chose_tick_def)

lemma Disk_loop_tick:
  "chose_tick ob p \<Longrightarrow> Disk_loop (ob # obs) c = Disk_loop obs (Disk_collectAndSend p c)"
  by (simp add: chose_tick_def)

lemma Network_loop_tick:
  "chose_tick ob p \<Longrightarrow>
   Network_loop (ob # obs) c = Network_loop obs (Network_collectAndSend p c)"
  by (simp add: chose_tick_def)

lemma CPU_loop_tick_Running:
  "chose_tick ob p \<Longrightarrow> CPU_tick ob p c = Running c' \<Longrightarrow> CPU_loop (ob # obs) c = CPU_loop obs c'"
  by (simp add: chose_tick_def)

lemma CPU_loop_tick_Returned:
  "chose_tick ob p \<Longrightarrow> CPU_tick ob p c = Returned c' \<Longrightarrow> CPU_loop (ob # obs) c = Returned c'"
  by (simp add: chose_tick_def)

lemma collectCPUMetrics_total_error:
  "Percent_total p = Inl e \<Longrightarrow> collectCPUMetrics p c = (c, Err e)"
  by (simp add: collectCPUMetrics_def)

lemma collectCPUMetrics_percpu_error:
  "Percent_total p = Inr ov \<Longrightarrow> Percent_percpu p = Inl e \<Longrightarrow>
   collectCPUMetrics p c = (c, Err e)"
  by (simp add: collectCPUMetrics_def)

lemma collectCPUMetrics_load_error:
  "Percent_total p = Inr ov \<Longrightarrow> index ov 0 = Some x \<Longrightarrow> Percent_percpu p = Inr pc \<Longrightarrow>
   Avg p = Inl e \<Longrightarrow>
   collectCPUMetrics p c =
     (c\<lparr>col_log := col_log c @ [WarningLoadAverage e]\<rparr>,
      Ok \<lparr>Type = ''cpu'', metric_Timestamp = cpu_Now p,
          Data = CPU_any \<lparr>OverallPercent = x, PerCorePercent = pc,
                          LoadAverage = Some [Float64 0, Float64 0, Float64 0]\<rparr>\<rparr>)"
  by (simp add: collectCPUMetrics_def)

lemma CPU_tick_error:
  "collectCPUMetrics p c = (c', Err e) \<Longrightarrow>
   CPU_tick ob p c = Running (c'\<lparr>col_log := col_log c' @ [ErrorCollecting ''CPU'' e]\<rparr>)"
  by (simp add: CPU_tick_def)

text \<open>
  Claim C8, as the code has it. A cycle in which a probe call fails whose error the collector
  returns on (\<open>cpu.Percent\<close> in either call, \<open>mem.VirtualMemory\<close>, \<open>mem.SwapMemory\<close>,
  \<open>disk.Usage\<close>, \<open>disk.IOCounters\<close>, \<open>net.IOCounters\<close>) logs the error, hands nothing to the
  mailbox, and the loop goes on with its next iteration. A failure of \<open>load.Avg\<close> alone does
  not skip the cycle: the CPU measurement is built with load averages 0, 0, 0.
\<close>

theorem probe_error_skips_cycle:
  "(chose_tick obc pc \<and> Percent_total pc = Inl e \<longrightarrow>
      CPU_loop (obc # obsc) c =
        CPU_loop obsc (c\<lparr>col_log := col_log c @ [ErrorCollecting ''CPU'' e]\<rparr>))
   \<and> (chose_tick obc pc \<and> Percent_total pc = Inr ov \<and> Percent_percpu pc = Inl e \<longrightarrow>
      CPU_loop (obc # obsc) c =
        CPU_loop obsc (c\<lparr>col_log := col_log c @ [ErrorCollecting ''CPU'' e]\<rparr>))
   \<and> (chose_tick obm pm \<and> VirtualMemory pm = Inl e \<longrightarrow>
      Memory_loop (obm # obsm) c =
        Memory_loop obsm (c\<lparr>col_log := col_log c @ [ErrorCollecting ''virtual memory'' e]\<rparr>))
   \<and> (chose_tick obm pm \<and> VirtualMemory pm = Inr vm \<and> SwapMemory pm = Inl e \<longrightarrow>
      Memory_loop (obm # obsm) c =
        Memory_loop obsm (c\<lparr>col_log := col_log c @ [ErrorCollecting ''swap memory'' e]\<rparr>))
   \<and> (chose_tick obd pd \<and> Usage pd = Inl e \<longrightarrow>
      Disk_loop (obd # obsd) c =
        Disk_loop obsd (c\<lparr>col_log := col_log c @ [ErrorCollecting ''disk usage'' e]\<rparr>))
   \<and> (chose_tick obd pd \<and> Usage pd = Inr us \<and> disk_IOCounters pd = Inl e \<longrightarrow>
      Disk_loop (obd # obsd) c =
        Disk_loop obsd (c\<lparr>col_log := col_log c @ [ErrorCollecting ''disk I/O'' e]\<rparr>))
   \<and> (chose_tick obn pn \<and> net_IOCounters pn = Inl e \<longrightarrow>
      Network_loop (obn # obsn) c =
        Network_loop obsn (c\<lparr>col_log := col_log c @ [ErrorCollecting ''network'' e]\<rparr>))
   \<and> (Percent_total pc = Inr ov \<and> index ov 0 = Some x \<and> Percent_percpu pc = Inr pcs
        \<and> Avg pc = Inl e \<longrightarrow>
      collectCPUMetrics pc c =
        (c\<lparr>col_log := col_log c @ [WarningLoadAverage e]\<rparr>,
         Ok \<lparr>Type = ''cpu'', metric_Timestamp = cpu_Now pc,
             Data = CPU_any \<lparr>OverallPercent = x, PerCorePercent = pcs,
                             LoadAverage = Some [Float64 0, Float64 0, Float64 0]\<rparr>\<rparr>))"
proof (intro conjI impI; (elim conjE)?)
  assume "chose_tick obc pc" "Percent_total pc = Inl e"
  then show "CPU_loop (obc # obsc) c =
        CPU_loop obsc (c\<lparr>col_log := col_log c @ [ErrorCollecting ''CPU'' e]\<rparr>)"
    using CPU_loop_tick_Running CPU_tick_error collectCPUMetrics_total_error by metis
next
  assume "chose_tick obc pc" "Percent_total pc = Inr ov" "Percent_percpu pc = Inl e"
  then show "CPU_loop (obc # obsc) c =
        CPU_loop obsc (c\<lparr>col_log := col_log c @ [ErrorCollecting ''CPU'' e]\<rparr>)"
    using CPU_loop_tick_Running CPU_tick_error collectCPUMetrics_percpu_error by metis
next
  assume "chose_tick obm pm" "VirtualMemory pm = Inl e"
  then show "Memory_loop (obm # obsm) c =
        Memory_loop obsm (c\<lparr>col_log := col_log c @ [ErrorCollecting ''virtual memory'' e]\<rparr>)"
    by (simp add: Memory_loop_tick Memory_collectAndSend_def del: Memory_loop.simps)
next
  assume "chose_tick obm pm" "VirtualMemory pm = Inr vm" "SwapMemory pm = Inl e"
  then show "Memory_loop (obm # obsm) c =
        Memory_loop obsm (c\<lparr>col_log := col_log c @ [ErrorCollecting ''swap memory'' e]\<rparr>)"
    by (simp add: Memory_loop_tick Memory_collectAndSend_def del: Memory_loop.simps)
next
  assume "chose_tick obd pd" "Usage pd = Inl e"
  then show "Disk_loop (obd # obsd) c =
        Disk_loop obsd (c\<lparr>col_log := col_log c @ [ErrorCollecting ''disk usage'' e]\<rparr>)"
    by (simp add: Disk_loop_tick Disk_collectAndSend_def del: Disk_loop.simps)
next
  assume "chose_tick obd pd" "Usage pd = Inr us" "disk_IOCounters pd = Inl e"
  then show "Disk_loop (obd # obsd) c =
        Disk_loop obsd (c\<lparr>col_log := col_log c @ [ErrorCollecting ''disk I/O'' e]\<rparr>)"
    by (simp add: Disk_loop_tick Disk_collectAndSend_def del: Disk_loop.simps)
next
  assume "chose_tick obn pn" "net_IOCounters pn = Inl e"
  then show "Network_loop (obn # obsn) c =
        Network_loop obsn (c\<lparr>col_log := col_log c @ [ErrorCollecting ''network'' e]\<rparr>)"
    by (simp add: Network_loop_tick Network_collectAndSend_def del: Network_loop.simps)
next
  assume "Percent_total pc = Inr ov" "index ov 0 = Some x" "Percent_percpu pc = Inr pcs"
    "Avg pc = Inl e"
  then show "collectCPUMetrics pc c =
        (c\<lparr>col_log := col_log c @ [WarningLoadAverage e]\<rparr>,
         Ok \<lparr>Type = ''cpu'', metric_Timestamp = cpu_Now pc,
             Data = CPU_any \<lparr>OverallPercent = x, PerCorePercent = pcs,
                             LoadAverage = Some [Float64 0, Float64 0, Float64 0]\<rparr>\<rparr>)"
    by (rule collectCPUMetrics_load_error)
qed

text \<open>
  The claim as stated fails for the CPU collector: with \<open>load.Avg\<close> failing and both
  \<open>cpu.Percent\<close> calls succeeding, the cycle emits a measurement.
\<close>

theorem probe_error_skips_cycle_counterexample:
  "Avg cpu_noload = Inl ''not implemented yet''
   \<and> CPU_loop [tick_with cpu_noload] c_room =
       Running (c_room\<lparr>output_ch := queue [cpu_at 7 10] 2,
                       col_log := [WarningLoadAverage ''not implemented yet'']\<rparr>)"
  by (simp add: worker_run_defs probe_defs CPU_tick_def collectCPUMetrics_def cpu_payload_def)

theorem probe_error_skips_cycle_witness:
  "chose_tick (tick_with (cpu_ok\<lparr>Percent_total := Inl ''boom''\<rparr>))
       (cpu_ok\<lparr>Percent_total := Inl ''boom''\<rparr>)
   \<and> CPU_loop [tick_with (cpu_ok\<lparr>Percent_total := Inl ''boom''\<rparr>)] c_room =
       Running (c_room\<lparr>col_log := [ErrorCollecting ''CPU'' ''boom'']\<rparr>)
   \<and> chose_tick (tick_with (cpu_ok\<lparr>Percent_percpu := Inl ''boom''\<rparr>))
       (cpu_ok\<lparr>Percent_percpu := Inl ''boom''\<rparr>)
   \<and> CPU_loop [tick_with (cpu_ok\<lparr>Percent_percpu := Inl ''boom''\<rparr>)] c_room =
       Running (c_room\<lparr>col_log := [ErrorCollecting ''CPU'' ''boom'']\<rparr>)
   \<and> chose_tick (tick_with (mem_ok\<lparr>VirtualMemory := Inl ''boom''\<rparr>))
       (mem_ok\<lparr>VirtualMemory := Inl ''boom''\<rparr>)
   \<and> Memory_loop [tick_with (mem_ok\<lparr>VirtualMemory := Inl ''boom''\<rparr>)] c_room =
       Running (c_room\<lparr>col_log := [ErrorCollecting ''virtual memory'' ''boom'']\<rparr>)
   \<and> chose_tick (tick_with (mem_ok\<lparr>SwapMemory := Inl ''boom''\<rparr>))
       (mem_ok\<lparr>SwapMemory := Inl ''boom''\<rparr>)
   \<and> Memory_loop [tick_with (mem_ok\<lparr>SwapMemory := Inl ''boom''\<rparr>)] c_room =
       Running (c_room\<lparr>col_log := [ErrorCollecting ''swap memory'' ''boom'']\<rparr>)
   \<and> chose_tick (tick_with (disk_ok\<lparr>Usage := Inl ''boom''\<rparr>)) (disk_ok\<lparr>Usage := Inl ''boom''\<rparr>)
   \<and> Disk_loop [tick_with (disk_ok\<lparr>Usage := Inl ''boom''\<rparr>)] c_room =
       Running (c_room\<lparr>col_log := [ErrorCollecting ''disk usage'' ''boom'']\<rparr>)
   \<and> chose_tick (tick_with (disk_ok\<lparr>disk_IOCounters := Inl ''boom''\<rparr>))
       (disk_ok\<lparr>disk_IOCounters := Inl ''boom''\<rparr>)
   \<and> Disk_loop [tick_with (disk_ok\<lparr>disk_IOCounters := Inl ''boom''\<rparr>)] c_room =
       Running (c_room\<lparr>col_log := [ErrorCollecting ''disk I/O'' ''boom'']\<rparr>)
   \<and> chose_tick (tick_with (net_ok\<lparr>net_IOCounters := Inl ''boom''\<rparr>))
       (net_ok\<lparr>net_IOCounters := Inl ''boom''\<rparr>)
   \<and> Network_loop [tick_with (net_ok\<lparr>net_IOCounters := Inl ''boom''\<rparr>)] c_room =
       Running (c_room\<lparr>col_log := [ErrorCollecting ''network'' ''boom'']\<rparr>)
   \<and> snd (collectCPUMetrics cpu_noload c_room) = Ok (cpu_at 7 10)"
proof -
  have t: "\<And>p. chose_tick (tick_with p) p"
    by (simp add: chose_tick_def tick_with_def at_select_def loop_ready_def)
  have c: "col_log c_room = []" by (simp add: c_room_def)
  note th = probe_error_skips_cycle [where c = c_room and obsc = "[]"
      and obsm = "[]" and obsd = "[]" and obsn = "[]"]
  note th1 = th [THEN conjunct1, rule_format]
  note th2 = th [THEN conjunct2, THEN conjunct1, rule_format]
  note th3 = th [THEN conjunct2, THEN conjunct2, THEN conjunct1, rule_format]
  note th4 = th [THEN conjunct2, THEN conjunct2, THEN conjunct2, THEN conjunct1, rule_format]
  note th5 = th [THEN conjunct2, THEN conjunct2, THEN conjunct2, THEN conjunct2,
      THEN conjunct1, rule_format]
  note th6 = th [THEN conjunct2, THEN conjunct2, THEN conjunct2, THEN conjunct2,
      THEN conjunct2, THEN conjunct1, rule_format]
  note th7 = th [THEN conjunct2, THEN conjunct2, THEN conjunct2, THEN conjunct2,
      THEN conjunct2, THEN conjunct2, THEN conjunct1, rule_format]
  note th8 = th [THEN conjunct2, THEN conjunct2, THEN conjunct2, THEN conjunct2,
      THEN conjunct2, THEN conjunct2, THEN conjunct2, rule_format]
  have "CPU_loop [tick_with (cpu_ok\<lparr>Percent_total := Inl ''boom''\<rparr>)] c_room =
       CPU_loop [] (c_room\<lparr>col_log := col_log c_room @ [ErrorCollecting ''CPU'' ''boom'']\<rparr>)"
    by (rule th1 [where pc = "cpu_ok\<lparr>Percent_total := Inl ''boom''\<rparr>"]) (simp add: t)
  then have 1: "CPU_loop [tick_with (cpu_ok\<lparr>Percent_total := Inl ''boom''\<rparr>)] c_room =
       Running (c_room\<lparr>col_log := [ErrorCollecting ''CPU'' ''boom'']\<rparr>)"
    using c by (simp del: loop_Cons)
  have "CPU_loop [tick_with (cpu_ok\<lparr>Percent_percpu := Inl ''boom''\<rparr>)] c_room =
       CPU_loop [] (c_room\<lparr>col_log := col_log c_room @ [ErrorCollecting ''CPU'' ''boom'']\<rparr>)"
    by (rule th2 [where ov = "Some [Float64 10]"
          and pc = "cpu_ok\<lparr>Percent_percpu := Inl ''boom''\<rparr>"]) (simp add: t cpu_ok_def)
  then have 2: "CPU_loop [tick_with (cpu_ok\<lparr>Percent_percpu := Inl ''boom''\<rparr>)] c_room =
       Running (c_room\<lparr>col_log := [ErrorCollecting ''CPU'' ''boom'']\<rparr>)"
    using c by (simp del: loop_Cons)
  have "Memory_loop [tick_with (mem_ok\<lparr>VirtualMemory := Inl ''boom''\<rparr>)] c_room =
       Memory_loop []
         (c_room\<lparr>col_log := col_log c_room @ [ErrorCollecting ''virtual memory'' ''boom'']\<rparr>)"
    by (rule th3 [where pm = "mem_ok\<lparr>VirtualMemory := Inl ''boom''\<rparr>"]) (simp add: t)
  then have 3: "Memory_loop [tick_with (mem_ok\<lparr>VirtualMemory := Inl ''boom''\<rparr>)] c_room =
       Running (c_room\<lparr>col_log := [ErrorCollecting ''virtual memory'' ''boom'']\<rparr>)"
    using c by (simp del: loop_Cons)
  have "Memory_loop [tick_with (mem_ok\<lparr>SwapMemory := Inl ''boom''\<rparr>)] c_room =
       Memory_loop []
         (c_room\<lparr>col_log := col_log c_room @ [ErrorCollecting ''swap memory'' ''boom'']\<rparr>)"
    by (rule th4 [where vm = "\<lparr>vm_Total = 20, vm_Available = 0, vm_Used = 0,
          vm_UsedPercent = Float64 0\<rparr>"
          and pm = "mem_ok\<lparr>SwapMemory := Inl ''boom''\<rparr>"]) (simp add: t mem_ok_def)
  then have 4: "Memory_loop [tick_with (mem_ok\<lparr>SwapMemory := Inl ''boom''\<rparr>)] c_room =
       Running (c_room\<lparr>col_log := [ErrorCollecting ''swap memory'' ''boom'']\<rparr>)"
    using c by (simp del: loop_Cons)
  have "Disk_loop [tick_with (disk_ok\<lparr>Usage := Inl ''boom''\<rparr>)] c_room =
       Disk_loop []
         (c_room\<lparr>col_log := col_log c_room @ [ErrorCollecting ''disk usage'' ''boom'']\<rparr>)"
    by (rule th5 [where pd = "disk_ok\<lparr>Usage := Inl ''boom''\<rparr>"]) (simp add: t)
  then have 5: "Disk_loop [tick_with (disk_ok\<lparr>Usage := Inl ''boom''\<rparr>)] c_room =
       Running (c_room\<lparr>col_log := [ErrorCollecting ''disk usage'' ''boom'']\<rparr>)"
    using c by (simp del: loop_Cons)
  have "Disk_loop [tick_with (disk_ok\<lparr>disk_IOCounters := Inl ''boom''\<rparr>)] c_room =
       Disk_loop []
         (c_room\<lparr>col_log := col_log c_room @ [ErrorCollecting ''disk I/O'' ''boom'']\<rparr>)"
    by (rule th6 [where us = "\<lparr>usage_Total = 30, usage_Free = 0, usage_Used = 0,
          usage_UsedPercent = Float64 0\<rparr>"
          and pd = "disk_ok\<lparr>disk_IOCounters := Inl ''boom''\<rparr>"]) (simp add: t disk_ok_def)
  then have 6: "Disk_loop [tick_with (disk_ok\<lparr>disk_IOCounters := Inl ''boom''\<rparr>)] c_room =
       Running (c_room\<lparr>col_log := [ErrorCollecting ''disk I/O'' ''boom'']\<rparr>)"
    using c by (simp del: loop_Cons)
  have "Network_loop [tick_with (net_ok\<lparr>net_IOCounters := Inl ''boom''\<rparr>)] c_room =
       Network_loop []
         (c_room\<lparr>col_log := col_log c_room @ [ErrorCollecting ''network'' ''boom'']\<rparr>)"
    by (rule th7 [where pn = "net_ok\<lparr>net_IOCounters := Inl ''boom''\<rparr>"]) (simp add: t)
  then have 7: "Network_loop [tick_with (net_ok\<lparr>net_IOCounters := Inl ''boom''\<rparr>)] c_room =
       Running (c_room\<lparr>col_log := [ErrorCollecting ''network'' ''boom'']\<rparr>)"
    using c by (simp del: loop_Cons)
  have "collectCPUMetrics cpu_noload c_room =
        (c_room\<lparr>col_log := col_log c_room @ [WarningLoadAverage ''not implemented yet'']\<rparr>,
         Ok \<lparr>Type = ''cpu'', metric_Timestamp = cpu_Now cpu_noload,
             Data = CPU_any \<lparr>OverallPercent = Float64 10, PerCorePercent = Some [Float64 10],
                             LoadAverage = Some [Float64 0, Float64 0, Float64 0]\<rparr>\<rparr>)"
    by (rule th8 [where ov = "Some [Float64 10]"])
      (simp add: cpu_noload_def cpu_ok_def index_def)
  then have 8: "snd (collectCPUMetrics cpu_noload c_room) = Ok (cpu_at 7 10)"
    by (simp add: cpu_noload_def cpu_ok_def cpu_at_def cpu_payload_def)
  show ?thesis by (intro conjI t 1 2 3 4 5 6 7 8)
qed

subsection \<open>Cancellation\<close>

lemma loop_ready_cancelled_idle:
  "ctx_done ob \<Longrightarrow> tick ob = None \<Longrightarrow>
   select_blocking (pick ob) (loop_ready ob) = Some DoneCase"
  by (simp add: loop_ready_def)

lemma loop_select_not_blocked:
  "ctx_done ob \<Longrightarrow> select_blocking (pick ob) (loop_ready ob) \<noteq> None"
  by (cases "tick ob") (simp_all add: loop_ready_def)

lemma Memory_full_drops:
  "VirtualMemory p = Inr vm \<Longrightarrow> SwapMemory p = Inr sw \<Longrightarrow> \<not> can_send (output_ch c) \<Longrightarrow>
   Memory_collectAndSend p c = c\<lparr>col_log := col_log c @ [MetricDropped ''Memory'']\<rparr>"
  by (simp add: Memory_collectAndSend_def Let_def try_send_def select_default_def)

lemma Disk_full_drops:
  "Usage p = Inr us \<Longrightarrow> disk_IOCounters p = Inr io \<Longrightarrow> \<not> can_send (output_ch c) \<Longrightarrow>
   Disk_collectAndSend p c = c\<lparr>col_log := col_log c @ [MetricDropped ''Disk'']\<rparr>"
  by (simp add: Disk_collectAndSend_def Let_def try_send_def select_default_def)

lemma Network_full_drops:
  "net_IOCounters p = Inr io \<Longrightarrow> index io 0 = Some st \<Longrightarrow> \<not> can_send (output_ch c) \<Longrightarrow>
   Network_collectAndSend p c = c\<lparr>col_log := col_log c @ [MetricDropped ''Network'']\<rparr>"
  by (simp add: Network_collectAndSend_def Let_def try_send_def select_default_def)

lemma CPU_tick_full_cancelled:
  "collectCPUMetrics p c = (c', Ok metric) \<Longrightarrow> \<not> can_send (output_ch c') \<Longrightarrow>
   send_ctx_done ob \<Longrightarrow> CPU_tick ob p c = Returned c'"
  by (simp add: CPU_tick_def select_default_def)

lemma CPU_tick_full:
  "collectCPUMetrics p c = (c', Ok metric) \<Longrightarrow> \<not> can_send (output_ch c') \<Longrightarrow>
   \<not> send_ctx_done ob \<Longrightarrow>
   CPU_tick ob p c = Running (c'\<lparr>col_log := col_log c' @ [MetricDropped ''CPU'']\<rparr>)"
  by (simp add: CPU_tick_def select_default_def)


lemma CPU_tick_room_cancelled:
  assumes "collectCPUMetrics p c = (c', Ok metric)" and "can_send (output_ch c')"
    and "send_ctx_done ob"
  shows "CPU_tick ob p c =
     (if even (send_pick ob) then Running (c'\<lparr>output_ch := enqueue metric (output_ch c')\<rparr>)
      else Returned c')"
proof (cases "even (send_pick ob)")
  case True
  then have "send_pick ob mod Suc (Suc 0) = 0" by presburger
  then have "[SendCase, CtxDoneCase] ! (send_pick ob mod length [SendCase, CtxDoneCase]) = SendCase"
    by simp
  then show ?thesis
    using assms True by (simp add: CPU_tick_def select_default_def del: nth_Cons_Suc)
next
  case False
  then have "send_pick ob mod Suc (Suc 0) = Suc 0" by presburger
  then have "[SendCase, CtxDoneCase] ! (send_pick ob mod length [SendCase, CtxDoneCase]) = CtxDoneCase"
    by simp
  then show ?thesis
    using assms False by (simp add: CPU_tick_def select_default_def del: nth_Cons_Suc)
qed

lemma Memory_loop_ignores_send_ctx:
  "Memory_loop (ob\<lparr>send_ctx_done := b\<rparr> # obs) c = Memory_loop (ob # obs) c"
  by (simp add: loop_ready_def)

lemma Disk_loop_ignores_send_ctx:
  "Disk_loop (ob\<lparr>send_ctx_done := b\<rparr> # obs) c = Disk_loop (ob # obs) c"
  by (simp add: loop_ready_def)

lemma Network_loop_ignores_send_ctx:
  "Network_loop (ob\<lparr>send_ctx_done := b\<rparr> # obs) c = Network_loop (ob # obs) c"
  by (simp add: loop_ready_def)

text \<open>
  Claim C4, as the code has it. Every collector observes cancellation between ticks: once
  the context is done the loop's \<open>select\<close> is never blocked, and with no tick pending the
  collector returns. Every hand-off completes at once: on a full mailbox the Memory, Disk and
  Network collectors drop the measurement, and so does the CPU collector while the context is
  not done. Only the CPU collector looks at the context during the hand-off: with the
  context done it returns from there when the mailbox is full, and sends or returns when it
  has room. The loops of the other three do not depend on the state of the context during
  the hand-off.
\<close>

theorem cancellation_between_ticks_and_cpu_hand_off:
  "(ctx_done obc \<longrightarrow> select_blocking (pick obc) (loop_ready obc) \<noteq> None)
   \<and> (ctx_done obc \<and> tick obc = None \<longrightarrow>
        CPU_loop (obc # obsc) c =
          Returned (c\<lparr>col_log := col_log c @ [CollectorStopping ''CPU'']\<rparr>))
   \<and> (ctx_done obm \<and> tick obm = None \<longrightarrow>
        Memory_loop (obm # obsm) c =
          Returned (c\<lparr>col_log := col_log c @ [CollectorStopping ''Memory'']\<rparr>))
   \<and> (ctx_done obd \<and> tick obd = None \<longrightarrow>
        Disk_loop (obd # obsd) c =
          Returned (c\<lparr>col_log := col_log c @ [CollectorStopping ''Disk'']\<rparr>))
   \<and> (ctx_done obn \<and> tick obn = None \<longrightarrow>
        Network_loop (obn # obsn) c =
          Returned (c\<lparr>col_log := col_log c @ [CollectorStopping ''Network'']\<rparr>))
   \<and> (collectCPUMetrics pc c = (c', Ok metric) \<and> \<not> can_send (output_ch c')
        \<and> send_ctx_done obc \<longrightarrow> CPU_tick obc pc c = Returned c')
   \<and> (collectCPUMetrics pc c = (c', Ok metric) \<and> can_send (output_ch c')
        \<and> send_ctx_done obc \<longrightarrow>
        CPU_tick obc pc c =
          (if even (send_pick obc)
           then Running (c'\<lparr>output_ch := enqueue metric (output_ch c')\<rparr>)
           else Returned c'))
   \<and> (collectCPUMetrics pc c = (c', Ok metric) \<and> \<not> can_send (output_ch c')
        \<and> \<not> send_ctx_done obc \<longrightarrow>
        CPU_tick obc pc c =
          Running (c'\<lparr>col_log := col_log c' @ [MetricDropped ''CPU'']\<rparr>))
   \<and> (VirtualMemory pm = Inr vm \<and> SwapMemory pm = Inr sw \<and> \<not> can_send (output_ch c) \<longrightarrow>
        Memory_collectAndSend pm c = c\<lparr>col_log := col_log c @ [MetricDropped ''Memory'']\<rparr>)
   \<and> (Usage pd = Inr us \<and> disk_IOCounters pd = Inr io \<and> \<not> can_send (output_ch c) \<longrightarrow>
        Disk_collectAndSend pd c = c\<lparr>col_log := col_log c @ [MetricDropped ''Disk'']\<rparr>)
   \<and> (net_IOCounters pn = Inr nio \<and> index nio 0 = Some st \<and> \<not> can_send (output_ch c) \<longrightarrow>
        Network_collectAndSend pn c = c\<lparr>col_log := col_log c @ [MetricDropped ''Network'']\<rparr>)
   \<and> Memory_loop (obm\<lparr>send_ctx_done := b\<rparr> # obsm) c = Memory_loop (obm # obsm) c
   \<and> Disk_loop (obd\<lparr>send_ctx_done := b\<rparr> # obsd) c = Disk_loop (obd # obsd) c
   \<and> Network_loop (obn\<lparr>send_ctx_done := b\<rparr> # obsn) c = Network_loop (obn # obsn) c"
proof (intro conjI impI; (elim conjE)?)
  assume "ctx_done obc"
  then show "select_blocking (pick obc) (loop_ready obc) \<noteq> None"
    by (rule loop_select_not_blocked)
next
  assume "ctx_done obc" "tick obc = None"
  then show "CPU_loop (obc # obsc) c =
          Returned (c\<lparr>col_log := col_log c @ [CollectorStopping ''CPU'']\<rparr>)"
    by (simp add: loop_ready_cancelled_idle)
next
  assume "ctx_done obm" "tick obm = None"
  then show "Memory_loop (obm # obsm) c =
          Returned (c\<lparr>col_log := col_log c @ [CollectorStopping ''Memory'']\<rparr>)"
    by (simp add: loop_ready_cancelled_idle)
next
  assume "ctx_done obd" "tick obd = None"
  then show "Disk_loop (obd # obsd) c =
          Returned (c\<lparr>col_log := col_log c @ [CollectorStopping ''Disk'']\<rparr>)"
    by (simp add: loop_ready_cancelled_idle)
next
  assume "ctx_done obn" "tick obn = None"
  then show "Network_loop (obn # obsn) c =
          Returned (c\<lparr>col_log := col_log c @ [CollectorStopping ''Network'']\<rparr>)"
    by (simp add: loop_ready_cancelled_idle)
next
  assume "collectCPUMetrics pc c = (c', Ok metric)" "\<not> can_send (output_ch c')"
    "send_ctx_done obc"
  then show "CPU_tick obc pc c = Returned c'"
    by (rule CPU_tick_full_cancelled)
next
  assume "collectCPUMetrics pc c = (c', Ok metric)" "can_send (output_ch c')"
    "send_ctx_done obc"
  then show "CPU_tick obc pc c =
          (if even (send_pick obc)
           then Running (c'\<lparr>output_ch := enqueue metric (output_ch c')\<rparr>)
           else Returned c')"
    by (rule CPU_tick_room_cancelled)
next
  assume "collectCPUMetrics pc c = (c', Ok metric)" "\<not> can_send (output_ch c')"
    "\<not> send_ctx_done obc"
  then show "CPU_tick obc pc c =
          Running (c'\<lparr>col_log := col_log c' @ [MetricDropped ''CPU'']\<rparr>)"
    by (rule CPU_tick_full)
next
  assume "VirtualMemory pm = Inr vm" "SwapMemory pm = Inr sw" "\<not> can_send (output_ch c)"
  then show "Memory_collectAndSend pm c =
      c\<lparr>col_log := col_log c @ [MetricDropped ''Memory'']\<rparr>"
    by (rule Memory_full_drops)
next
  assume "Usage pd = Inr us" "disk_IOCounters pd = Inr io" "\<not> can_send (output_ch c)"
  then show "Disk_collectAndSend pd c = c\<lparr>col_log := col_log c @ [MetricDropped ''Disk'']\<rparr>"
    by (rule Disk_full_drops)
next
  assume "net_IOCounters pn = Inr nio" "index nio 0 = Some st" "\<not> can_send (output_ch c)"
  then show "Network_collectAndSend pn c =
      c\<lparr>col_log := col_log c @ [MetricDropped ''Network'']\<rparr>"
    by (rule Network_full_drops)
next
  show "Memory_loop (obm\<lparr>send_ctx_done := b\<rparr> # obsm) c = Memory_loop (obm # obsm) c"
    by (rule Memory_loop_ignores_send_ctx)
next
  show "Disk_loop (obd\<lparr>send_ctx_done := b\<rparr> # obsd) c = Disk_loop (obd # obsd) c"
    by (rule Disk_loop_ignores_send_ctx)
next
  show "Network_loop (obn\<lparr>send_ctx_done := b\<rparr> # obsn) c = Network_loop (obn # obsn) c"
    by (rule Network_loop_ignores_send_ctx)
qed

text \<open>
  The claim as stated fails for the Memory, Disk and Network collectors: cancelled during
  the hand-off on a full mailbox they drop the measurement and are still running, where the
  CPU collector has returned.
\<close>

theorem cancellation_hand_off_counterexample:
  "send_ctx_done (mid_send_cancel mem_ok)
   \<and> Memory_loop [mid_send_cancel mem_ok] c_full =
       Running (c_full\<lparr>col_log := [MetricDropped ''Memory'']\<rparr>)
   \<and> Disk_loop [mid_send_cancel disk_ok] c_full =
       Running (c_full\<lparr>col_log := [MetricDropped ''Disk'']\<rparr>)
   \<and> Network_loop [mid_send_cancel net_ok] c_full =
       Running (c_full\<lparr>col_log := [MetricDropped ''Network'']\<rparr>)
   \<and> CPU_loop [mid_send_cancel cpu_ok] c_full = Returned c_full"
  by (simp add: worker_run_defs probe_defs Memory_collectAndSend_def Disk_collectAndSend_def
      Network_collectAndSend_def CPU_tick_def collectCPUMetrics_def)


theorem cancellation_between_ticks_and_cpu_hand_off_witness:
  "ctx_done (cancelled_idle :: cpu_probe obs) \<and> tick (cancelled_idle :: cpu_probe obs) = None
   \<and> CPU_loop [cancelled_idle] c_full =
       Returned (c_full\<lparr>col_log := [CollectorStopping ''CPU'']\<rparr>)
   \<and> Memory_loop [cancelled_idle] c_full =
       Returned (c_full\<lparr>col_log := [CollectorStopping ''Memory'']\<rparr>)
   \<and> Disk_loop [cancelled_idle] c_full =
       Returned (c_full\<lparr>col_log := [CollectorStopping ''Disk'']\<rparr>)
   \<and> Network_loop [cancelled_idle] c_full =
       Returned (c_full\<lparr>col_log := [CollectorStopping ''Network'']\<rparr>)
   \<and> collectCPUMetrics cpu_ok c_full = (c_full, Ok (cpu_at 7 10))
   \<and> \<not> can_send (output_ch c_full)
   \<and> send_ctx_done (cancelled_idle :: cpu_probe obs)
   \<and> CPU_tick cancelled_idle cpu_ok c_full = Returned c_full
   \<and> can_send (output_ch c_room)
   \<and> CPU_tick cancelled_idle cpu_ok c_room =
       Running (c_room\<lparr>output_ch := queue [cpu_at 7 10] 2\<rparr>)
   \<and> \<not> send_ctx_done (tick_with cpu_ok)
   \<and> CPU_tick (tick_with cpu_ok) cpu_ok c_full =
       Running (c_full\<lparr>col_log := [MetricDropped ''CPU'']\<rparr>)
   \<and> Memory_collectAndSend mem_ok c_full = c_full\<lparr>col_log := [MetricDropped ''Memory'']\<rparr>
   \<and> Disk_collectAndSend disk_ok c_full = c_full\<lparr>col_log := [MetricDropped ''Disk'']\<rparr>
   \<and> Network_collectAndSend net_ok c_full = c_full\<lparr>col_log := [MetricDropped ''Network'']\<rparr>"
proof -
  have i: "ctx_done (cancelled_idle :: cpu_probe obs)"
    "tick (cancelled_idle :: cpu_probe obs) = None"
    "send_ctx_done (cancelled_idle :: cpu_probe obs)"
    "ctx_done (cancelled_idle :: mem_probe obs)" "tick (cancelled_idle :: mem_probe obs) = None"
    "ctx_done (cancelled_idle :: disk_probe obs)" "tick (cancelled_idle :: disk_probe obs) = None"
    "ctx_done (cancelled_idle :: net_probe obs)" "tick (cancelled_idle :: net_probe obs) = None"
    by (simp_all add: cancelled_idle_def at_select_def)
  have f: "\<not> can_send (output_ch c_full)" "col_log c_full = []"
    by (simp_all add: c_full_def can_send_def queue_def)
  have r: "can_send (output_ch c_room)" "col_log c_room = []"
    by (simp_all add: c_room_def can_send_def queue_def)
  have n: "\<not> send_ctx_done (tick_with cpu_ok)"
    by (simp add: tick_with_def at_select_def)
  have e: "even (send_pick (cancelled_idle :: cpu_probe obs))"
    by (simp add: cancelled_idle_def at_select_def)
  have q: "enqueue (cpu_at 7 10) (output_ch c_room) = queue [cpu_at 7 10] 2"
    by (simp add: enqueue_def c_room_def queue_def)
  have k: "\<And>c. collectCPUMetrics cpu_ok c = (c, Ok (cpu_at 7 10))"
    by (simp add: collectCPUMetrics_def cpu_ok_def index_def cpu_at_def cpu_payload_def)
  have p: "VirtualMemory mem_ok =
        Inr \<lparr>vm_Total = 20, vm_Available = 0, vm_Used = 0, vm_UsedPercent = Float64 0\<rparr>"
    "SwapMemory mem_ok = Inr \<lparr>swap_Total = 0, swap_Used = 0, swap_UsedPercent = Float64 0\<rparr>"
    "Usage disk_ok =
        Inr \<lparr>usage_Total = 30, usage_Free = 0, usage_Used = 0, usage_UsedPercent = Float64 0\<rparr>"
    "disk_IOCounters disk_ok = Inr []"
    "net_IOCounters net_ok =
        Inr (Some [\<lparr>io_BytesSent = 40, io_BytesRecv = 0, io_PacketsSent = 0, io_PacketsRecv = 0,
                    Errin = 0, Errout = 0, Dropin = 0, Dropout = 0\<rparr>])"
    "index (Some [\<lparr>io_BytesSent = 40, io_BytesRecv = 0, io_PacketsSent = 0, io_PacketsRecv = 0,
                    Errin = 0, Errout = 0, Dropin = 0, Dropout = 0\<rparr>]) 0 =
        Some \<lparr>io_BytesSent = 40, io_BytesRecv = 0, io_PacketsSent = 0, io_PacketsRecv = 0,
                    Errin = 0, Errout = 0, Dropin = 0, Dropout = 0\<rparr>"
    by (simp_all add: probe_defs index_def)
  note A = cancellation_between_ticks_and_cpu_hand_off
    [where obc = cancelled_idle and obm = cancelled_idle and obd = cancelled_idle
      and obn = cancelled_idle and obsc = "[]" and obsm = "[]" and obsd = "[]" and obsn = "[]"
      and c = c_full and c' = c_full and pc = cpu_ok and metric = "cpu_at 7 10"
      and pm = mem_ok and pd = disk_ok and pn = net_ok
      and vm = "\<lparr>vm_Total = 20, vm_Available = 0, vm_Used = 0, vm_UsedPercent = Float64 0\<rparr>"
      and sw = "\<lparr>swap_Total = 0, swap_Used = 0, swap_UsedPercent = Float64 0\<rparr>"
      and us = "\<lparr>usage_Total = 30, usage_Free = 0, usage_Used = 0,
                 usage_UsedPercent = Float64 0\<rparr>"
      and io = "[]"
      and nio = "Some [\<lparr>io_BytesSent = 40, io_BytesRecv = 0, io_PacketsSent = 0,
                    io_PacketsRecv = 0, Errin = 0, Errout = 0, Dropin = 0, Dropout = 0\<rparr>]"
      and st = "\<lparr>io_BytesSent = 40, io_BytesRecv = 0, io_PacketsSent = 0,
                    io_PacketsRecv = 0, Errin = 0, Errout = 0, Dropin = 0, Dropout = 0\<rparr>"]
  note B = cancellation_between_ticks_and_cpu_hand_off
    [where obc = cancelled_idle and c = c_room and c' = c_room and pc = cpu_ok
      and metric = "cpu_at 7 10",
      THEN conjunct2, THEN conjunct2, THEN conjunct2, THEN conjunct2, THEN conjunct2,
      THEN conjunct2, THEN conjunct1, rule_format]
  note C = cancellation_between_ticks_and_cpu_hand_off
    [where obc = "tick_with cpu_ok" and c = c_full and c' = c_full and pc = cpu_ok
      and metric = "cpu_at 7 10",
      THEN conjunct2, THEN conjunct2, THEN conjunct2, THEN conjunct2, THEN conjunct2,
      THEN conjunct2, THEN conjunct2, THEN conjunct1, rule_format]
  have b: "CPU_tick cancelled_idle cpu_ok c_room =
       Running (c_room\<lparr>output_ch := queue [cpu_at 7 10] 2\<rparr>)"
    using B i r k e q by simp
  have c: "CPU_tick (tick_with cpu_ok) cpu_ok c_full =
       Running (c_full\<lparr>col_log := [MetricDropped ''CPU'']\<rparr>)"
    using C f k n by simp
  show ?thesis
    using A i f r n k p b c by (simp del: loop_Cons)
qed

subsection \<open>The hand-off\<close>

































section \<open>Configuration\<close>

lemma Atoi_examples:
  "Atoi ''-5'' = Inr (- 5)" "Atoi ''0'' = Inr 0" "Atoi ''64'' = Inr 64"
  "Atoi ''many'' = Inl ''invalid syntax''"
  by (simp_all add: Atoi_def is_digit_def digits_value_def)

text \<open>
  Claim C5, as the code has it. A setting that is unset, empty, or does not parse falls back
  to its default (5 s, 250 ms, 100), each of which is positive; a setting that parses is used
  as parsed, whatever its sign.
\<close>

theorem config_fallback_on_parse_failure:
  "(Getenv env ''COLLECTOR_INTERVAL'' = [] \<or> pd (Getenv env ''COLLECTOR_INTERVAL'') = Inl err \<longrightarrow>
      collectorInterval (main_config pd env) = 5 * Second)
   \<and> (Getenv env ''COLLECTOR_INTERVAL'' \<noteq> [] \<and> pd (Getenv env ''COLLECTOR_INTERVAL'') = Inr d \<longrightarrow>
      collectorInterval (main_config pd env) = d)
   \<and> (Getenv env ''SAMPLE_INTERVAL'' = [] \<or> pd (Getenv env ''SAMPLE_INTERVAL'') = Inl err \<longrightarrow>
      cfg_sampleInterval (main_config pd env) = 250 * Millisecond)
   \<and> (Getenv env ''SAMPLE_INTERVAL'' \<noteq> [] \<and> pd (Getenv env ''SAMPLE_INTERVAL'') = Inr d \<longrightarrow>
      cfg_sampleInterval (main_config pd env) = d)
   \<and> (Getenv env ''BUFFER_SIZE'' = [] \<or> Atoi (Getenv env ''BUFFER_SIZE'') = Inl err \<longrightarrow>
      bufferSize (main_config pd env) = 100)
   \<and> (Getenv env ''BUFFER_SIZE'' \<noteq> [] \<and> Atoi (Getenv env ''BUFFER_SIZE'') = Inr n \<longrightarrow>
      bufferSize (main_config pd env) = n)
   \<and> 0 < 5 * Second \<and> 0 < 250 * Millisecond"
  by (auto simp: main_config_def getEnvDuration_def getEnvInt_def Let_def Second_def
      Millisecond_def)

text \<open>
  The claim as stated fails: \<open>BUFFER_SIZE=-5\<close> parses, is not replaced by the default, and
  \<open>NewAggregator\<close> panics on it; \<open>BUFFER_SIZE=0\<close> is used as it is.
\<close>

theorem config_fallback_on_parse_failure_counterexample:
  "bufferSize (main_config no_durations env_negative) = - 5
   \<and> NewAggregator (cfg_sampleInterval (main_config no_durations env_negative))
        (bufferSize (main_config no_durations env_negative)) = Inl MakechanSizeOutOfRange
   \<and> bufferSize (main_config no_durations env_zero) = 0"
  by (simp add: main_config_def getEnvDuration_def getEnvInt_def Let_def Getenv_def
      env_negative_def env_zero_def no_durations_def Atoi_examples NewAggregator_def
      make_chan_def)

theorem config_fallback_on_parse_failure_witness:
  "Getenv env_garbled ''COLLECTOR_INTERVAL'' = []
   \<and> collectorInterval (main_config no_durations env_garbled) = 5000000000
   \<and> Getenv env_garbled ''SAMPLE_INTERVAL'' = []
   \<and> cfg_sampleInterval (main_config no_durations env_garbled) = 250000000
   \<and> Atoi (Getenv env_garbled ''BUFFER_SIZE'') = Inl ''invalid syntax''
   \<and> bufferSize (main_config no_durations env_garbled) = 100
   \<and> Getenv env_sized ''BUFFER_SIZE'' \<noteq> []
   \<and> Atoi (Getenv env_sized ''BUFFER_SIZE'') = Inr 64
   \<and> bufferSize (main_config seconds_parser env_sized) = 64
   \<and> seconds_parser (Getenv env_sized ''COLLECTOR_INTERVAL'') = Inr 1000000000
   \<and> collectorInterval (main_config seconds_parser env_sized) = 1000000000
   \<and> seconds_parser (Getenv env_sized ''SAMPLE_INTERVAL'') = Inr 0
   \<and> cfg_sampleInterval (main_config seconds_parser env_sized) = 0"
proof -
  have g: "Getenv env_garbled ''COLLECTOR_INTERVAL'' = []"
    "Getenv env_garbled ''SAMPLE_INTERVAL'' = []"
    "Atoi (Getenv env_garbled ''BUFFER_SIZE'') = Inl ''invalid syntax''"
    by (simp_all add: Getenv_def env_garbled_def Atoi_examples)
  have s: "Getenv env_sized ''BUFFER_SIZE'' = ''64''"
    "Atoi (Getenv env_sized ''BUFFER_SIZE'') = Inr 64"
    "Getenv env_sized ''COLLECTOR_INTERVAL'' = ''1s''"
    "seconds_parser (Getenv env_sized ''COLLECTOR_INTERVAL'') = Inr 1000000000"
    "Getenv env_sized ''SAMPLE_INTERVAL'' = ''0s''"
    "seconds_parser (Getenv env_sized ''SAMPLE_INTERVAL'') = Inr 0"
    by (simp_all add: Getenv_def env_sized_def Atoi_examples seconds_parser_def Second_def)
  show ?thesis
    using g s
      config_fallback_on_parse_failure [of env_garbled no_durations "''invalid syntax''"]
      config_fallback_on_parse_failure [of env_sized seconds_parser _ 1000000000 64]
      config_fallback_on_parse_failure [of env_sized seconds_parser _ 0 64]
    by (simp add: Second_def Millisecond_def)
qed

end
